theory Spec2Isabelle
  imports Complex_Main "HOL-Library.Multiset"
begin

section \<open>The persistent schema (src/db/schema.ts)\<close>

text \<open>
  A JavaScript \<open>Date\<close> that is valid is its time value: the milliseconds since the epoch,
  an integer. The columns declared \<open>timestamp()\<close> hold such values. A \<open>text()\<close> column
  without \<open>notNull()\<close> may be NULL: an \<open>option\<close>.
\<close>

type_synonym timestamp = int

record workout =
  w_id :: int
  w_userId :: string
  w_name :: string
  w_date :: timestamp
  w_notes :: "string option"
  w_createdAt :: timestamp
  w_updatedAt :: timestamp

record exercise =
  e_id :: int
  e_workoutId :: int
  e_exerciseLibraryId :: "int option"
  e_name :: string
  e_order :: int
  e_notes :: "string option"
  e_createdAt :: timestamp

record set_row =
  s_id :: int
  s_exerciseId :: int
  s_setNumber :: int
  s_reps :: int
  s_weight :: "int option"
  s_createdAt :: timestamp

text \<open>
  The statements the gateway sends. The store may reject any of them (connectivity,
  constraint violation): \<open>rejects\<close> says which. The per-exercise fetch of sets is keyed by
  the exercise id, so that one such fetch can fail while the others answer.
\<close>

datatype stmt =
    SelectWorkouts
  | SelectExercises
  | SelectSets int
  | InsertWorkouts
  | UpdateWorkouts

text \<open>
  The database behind the imported handle \<open>db\<close>: the three tables in their physical row
  order, the identity sequence of \<open>workouts.id\<close> (\<open>generatedAlwaysAsIdentity\<close>), and the
  statements it rejects.
\<close>

record db =
  tbl_workouts :: "workout list"
  tbl_exercises :: "exercise list"
  tbl_sets :: "set_row list"
  workouts_seq :: int
  rejects :: "stmt \<Rightarrow> bool"

text \<open>
  The columns declared \<open>integer()\<close> are PostgreSQL's four-byte integers. A parameter that
  is compared with such a column and lies outside this range makes the store reject the
  statement, and the identity sequence of such a column ends at the upper limit.
\<close>

definition int4 :: "int \<Rightarrow> bool" where
  "int4 i = (- 2147483648 \<le> i \<and> i \<le> 2147483647)"

datatype issue_code = invalid_type | too_small | too_big

datatype issue = Issue issue_code string "string option"

text \<open>What an \<open>await\<close> can throw: the validation library's error, or a fault of the store.\<close>

datatype exn = ZodError "issue list" | PersistenceFailure

section \<open>The gateway (src/data/workouts.ts)\<close>

text \<open>\<open>orderBy\<close> is modelled as the stable sort on the column, \<open>limit(1)\<close> as \<open>take 1\<close>.\<close>

definition getUserWorkouts :: "db \<Rightarrow> string \<Rightarrow> exn + workout list" where
  "getUserWorkouts d userId =
     (if rejects d SelectWorkouts then Inl PersistenceFailure
      else Inr (sort_key w_date (filter (\<lambda>w. w_userId w = userId) (tbl_workouts d))))"

definition msPerDay :: int where
  "msPerDay = 86400000"

text \<open>
  The host's time zone, as ECMAScript reads it: \<open>offset_at z t\<close> is the offset of local
  time from UTC, in milliseconds, in effect at the instant \<open>t\<close>, and \<open>offset_of_local z l\<close>
  is the offset with which the local time value \<open>l\<close> is read back as an instant.
  \<open>LocalTime\<close> and \<open>UTC\<close> are the two conversions of the language specification.
\<close>

record zone =
  offset_at :: "timestamp \<Rightarrow> int"
  offset_of_local :: "int \<Rightarrow> int"

definition LocalTime :: "zone \<Rightarrow> timestamp \<Rightarrow> int" where
  "LocalTime z t = t + offset_at z t"

definition UTC :: "zone \<Rightarrow> int \<Rightarrow> timestamp" where
  "UTC z l = l - offset_of_local z l"

text \<open>
  \<open>Date.prototype.setHours(h, m, s, ms)\<close>: the time value is converted to local time, the
  time within the local day is replaced, and the result is converted back:
  \<open>UTC(MakeDate(Day(LocalTime(t)), MakeTime(h, m, s, ms)))\<close>.
\<close>

definition setHours :: "zone \<Rightarrow> timestamp \<Rightarrow> int \<Rightarrow> int \<Rightarrow> int \<Rightarrow> int \<Rightarrow> timestamp" where
  "setHours z t h m s ms =
     UTC z ((LocalTime z t div msPerDay) * msPerDay +
            (h * 3600000 + m * 60000 + s * 1000 + ms))"

definition getUserWorkoutsByDate :: "zone \<Rightarrow> db \<Rightarrow> string \<Rightarrow> timestamp \<Rightarrow> exn + workout list" where
  "getUserWorkoutsByDate z d userId date =
     (let startOfDay = setHours z date 0 0 0 0;
          endOfDay = setHours z date 23 59 59 999
      in if rejects d SelectWorkouts then Inl PersistenceFailure
         else Inr (sort_key w_date
                (filter (\<lambda>w. w_userId w = userId \<and> startOfDay \<le> w_date w \<and> w_date w \<le> endOfDay)
                   (tbl_workouts d))))"

text \<open>
  The aggregates built with the spread operator: \<open>{...exercise, sets}\<close> and
  \<open>{...workout[0], exercises}\<close> are the rows extended by one field.
\<close>

record exercise_with_sets = exercise +
  sets :: "set_row list"

record workout_with_exercises = workout +
  exercises :: "exercise_with_sets list"

text \<open>\<open>Promise.all\<close>: all the values, or a rejection when any of the promises rejects.\<close>

primrec Promise_all :: "(exn + 'a) list \<Rightarrow> exn + 'a list" where
  "Promise_all [] = Inr []"
| "Promise_all (p # ps) =
     (case p of
        Inl e \<Rightarrow> Inl e
      | Inr v \<Rightarrow> (case Promise_all ps of Inl e \<Rightarrow> Inl e | Inr vs \<Rightarrow> Inr (v # vs)))"

definition fetch_sets :: "db \<Rightarrow> exercise \<Rightarrow> exn + exercise_with_sets" where
  "fetch_sets d exercise =
     (if rejects d (SelectSets (e_id exercise)) then Inl PersistenceFailure
      else Inr (exercise.extend exercise
             (exercise_with_sets.fields
                (sort_key s_setNumber
                   (filter (\<lambda>s. s_exerciseId s = e_id exercise) (tbl_sets d))))))"

definition getUserWorkoutWithExercises ::
    "db \<Rightarrow> int \<Rightarrow> string \<Rightarrow> exn + workout_with_exercises option" where
  "getUserWorkoutWithExercises d workoutId userId =
     (if rejects d SelectWorkouts \<or> \<not> int4 workoutId then Inl PersistenceFailure
      else case take 1 (filter (\<lambda>w. w_id w = workoutId \<and> w_userId w = userId) (tbl_workouts d)) of
          [] \<Rightarrow> Inr None
        | w # _ \<Rightarrow>
            (if rejects d SelectExercises then Inl PersistenceFailure
             else let workoutExercises =
                        sort_key e_order
                          (filter (\<lambda>e. e_workoutId e = workoutId) (tbl_exercises d))
                  in (case Promise_all (map (fetch_sets d) workoutExercises) of
                        Inl e \<Rightarrow> Inl e
                      | Inr exercisesWithSets \<Rightarrow>
                          Inr (Some (workout.extend w
                                 (workout_with_exercises.fields exercisesWithSets))))))"

record create_data =
  cd_name :: string
  cd_date :: timestamp
  cd_notes :: "string option"
  cd_userId :: string

text \<open>
  The insert names four columns. \<open>id\<close> is drawn from the identity sequence, and
  \<open>createdAt\<close> and \<open>updatedAt\<close> both default to the store's \<open>now()\<close>, here \<open>now\<close>. The
  insert is rejected when the sequence has left the range of the column, and the primary
  key rejects an id that a row already has.
\<close>

definition createWorkout :: "timestamp \<Rightarrow> db \<Rightarrow> create_data \<Rightarrow> exn + workout \<times> db" where
  "createWorkout now d data =
     (if rejects d InsertWorkouts \<or> \<not> int4 (workouts_seq d) \<or>
         workouts_seq d \<in> w_id ` set (tbl_workouts d)
      then Inl PersistenceFailure
      else let workout = \<lparr> w_id = workouts_seq d, w_userId = cd_userId data,
                          w_name = cd_name data, w_date = cd_date data,
                          w_notes = cd_notes data, w_createdAt = now, w_updatedAt = now \<rparr>
           in Inr (workout, d\<lparr> tbl_workouts := tbl_workouts d @ [workout],
                               workouts_seq := workouts_seq d + 1 \<rparr>))"

record update_data =
  ud_name :: "string option"
  ud_date :: "timestamp option"
  ud_notes :: "string option"

text \<open>
  \<open>set({...data, updatedAt: new Date()})\<close>: a key of \<open>data\<close> that is absent or undefined
  is not assigned; \<open>updatedAt\<close> always is, with the caller's clock \<open>now\<close>.
\<close>

definition set_columns :: "timestamp \<Rightarrow> update_data \<Rightarrow> workout \<Rightarrow> workout" where
  "set_columns now data w =
     w\<lparr> w_name := (case ud_name data of None \<Rightarrow> w_name w | Some n \<Rightarrow> n),
        w_date := (case ud_date data of None \<Rightarrow> w_date w | Some t \<Rightarrow> t),
        w_notes := (case ud_notes data of None \<Rightarrow> w_notes w | Some n \<Rightarrow> Some n),
        w_updatedAt := now \<rparr>"

definition updateWorkout ::
    "timestamp \<Rightarrow> db \<Rightarrow> int \<Rightarrow> string \<Rightarrow> update_data \<Rightarrow> exn + workout option \<times> db" where
  "updateWorkout now d workoutId userId data =
     (if rejects d UpdateWorkouts \<or> \<not> int4 workoutId then Inl PersistenceFailure
      else let matches = (\<lambda>w. w_id w = workoutId \<and> w_userId w = userId);
               returning = map (set_columns now data) (filter matches (tbl_workouts d));
               d' = d\<lparr> tbl_workouts :=
                        map (\<lambda>w. if matches w then set_columns now data w else w)
                          (tbl_workouts d) \<rparr>
           in Inr (case returning of [] \<Rightarrow> None | workout # _ \<Rightarrow> Some workout, d'))"

definition getUserWorkout :: "db \<Rightarrow> int \<Rightarrow> string \<Rightarrow> exn + workout option" where
  "getUserWorkout d workoutId userId =
     (if rejects d SelectWorkouts \<or> \<not> int4 workoutId then Inl PersistenceFailure
      else case take 1 (filter (\<lambda>w. w_id w = workoutId \<and> w_userId w = userId) (tbl_workouts d)) of
          [] \<Rightarrow> Inr None
        | w # _ \<Rightarrow> Inr (Some w))"

section \<open>The entry points (the two actions.ts files)\<close>

subsection \<open>The validation schemas\<close>

text \<open>
  A field of the payload is \<open>None\<close> when the key is absent or undefined; the length of a
  string is the length of its list of characters. A check of a
  string yields the issues it raises; the message is the one the schema gives, \<open>None\<close>
  where the schema gives none. A schema field yields the validated value, or its issues.
\<close>

definition min_len :: "string \<Rightarrow> nat \<Rightarrow> string \<Rightarrow> string \<Rightarrow> issue list" where
  "min_len path n msg s = (if length s < n then [Issue too_small path (Some msg)] else [])"

definition max_len :: "string \<Rightarrow> nat \<Rightarrow> string \<Rightarrow> string \<Rightarrow> issue list" where
  "max_len path n msg s = (if n < length s then [Issue too_big path (Some msg)] else [])"

definition z_string :: "string \<Rightarrow> (string \<Rightarrow> issue list) \<Rightarrow> string option \<Rightarrow> issue list + string" where
  "z_string path checks v =
     (case v of
        None \<Rightarrow> Inl [Issue invalid_type path None]
      | Some s \<Rightarrow> (case checks s of [] \<Rightarrow> Inr s | i # is \<Rightarrow> Inl (i # is)))"

definition z_string_optional ::
    "(string \<Rightarrow> issue list) \<Rightarrow> string option \<Rightarrow> issue list + string option" where
  "z_string_optional checks v =
     (case v of
        None \<Rightarrow> Inr None
      | Some s \<Rightarrow> (case checks s of [] \<Rightarrow> Inr (Some s) | i # is \<Rightarrow> Inl (i # is)))"

text \<open>
  \<open>z.number().int().positive()\<close> on a number that is finite, here a rational: both checks
  run, and a value that passes is an integer.
\<close>

definition z_number_int_positive :: "string \<Rightarrow> rat option \<Rightarrow> issue list + int" where
  "z_number_int_positive path v =
     (case v of
        None \<Rightarrow> Inl [Issue invalid_type path None]
      | Some x \<Rightarrow>
          (case (if of_int \<lfloor>x\<rfloor> = x then [] else [Issue invalid_type path None]) @
                (if 0 < x then [] else [Issue too_small path None]) of
             [] \<Rightarrow> Inr \<lfloor>x\<rfloor>
           | i # is \<Rightarrow> Inl (i # is)))"

definition issues_of :: "issue list + 'a \<Rightarrow> issue list" where
  "issues_of r = (case r of Inl is \<Rightarrow> is | Inr _ \<Rightarrow> [])"

record create_input =
  ci_name :: "string option"
  ci_date :: "string option"
  ci_notes :: "string option"

record create_validated =
  cv_name :: string
  cv_date :: string
  cv_notes :: "string option"

definition createWorkoutSchema_parse :: "create_input \<Rightarrow> exn + create_validated" where
  "createWorkoutSchema_parse input =
     (let name = z_string ''name''
                   (\<lambda>s. min_len ''name'' 1 ''Name is required'' s @
                        max_len ''name'' 255 ''Name too long'' s) (ci_name input);
          date = z_string ''date'' (min_len ''date'' 1 ''Date is required'') (ci_date input);
          notes = z_string_optional (max_len ''notes'' 1000 ''Notes too long'') (ci_notes input)
      in case (name, date, notes) of
           (Inr n, Inr dt, Inr nt) \<Rightarrow> Inr \<lparr> cv_name = n, cv_date = dt, cv_notes = nt \<rparr>
         | _ \<Rightarrow> Inl (ZodError (issues_of name @ issues_of date @ issues_of notes)))"

record update_input =
  ui_id :: "rat option"
  ui_name :: "string option"
  ui_date :: "string option"
  ui_notes :: "string option"

record update_validated =
  uv_id :: int
  uv_name :: string
  uv_date :: string
  uv_notes :: "string option"

definition updateWorkoutSchema_parse :: "update_input \<Rightarrow> exn + update_validated" where
  "updateWorkoutSchema_parse input =
     (let ident = z_number_int_positive ''id'' (ui_id input);
          name = z_string ''name''
                   (\<lambda>s. min_len ''name'' 1 ''Name is required'' s @
                        max_len ''name'' 255 ''Name too long'' s) (ui_name input);
          date = z_string ''date'' (min_len ''date'' 1 ''Date is required'') (ui_date input);
          notes = z_string_optional (max_len ''notes'' 1000 ''Notes too long'') (ui_notes input)
      in case (ident, name, date, notes) of
           (Inr i, Inr n, Inr dt, Inr nt) \<Rightarrow>
             Inr \<lparr> uv_id = i, uv_name = n, uv_date = dt, uv_notes = nt \<rparr>
         | _ \<Rightarrow> Inl (ZodError (issues_of ident @ issues_of name @ issues_of date @
                                issues_of notes)))"

subsection \<open>The actions\<close>

text \<open>The result shape \<open>{success: true, data}\<close> or \<open>{success: false, error}\<close>.\<close>

datatype action_result = Success workout | Failure string

text \<open>
  \<open>auth\<close> is what \<open>auth()\<close> yields: the caller's id, or \<open>None\<close> for null. \<open>!userId\<close> holds
  for null and for the empty string.
  \<open>parse_date\<close> is \<open>new Date(string)\<close>: the time value, or \<open>None\<close> for an Invalid Date,
  which the store's driver refuses inside the \<open>try\<close> block. \<open>Inl\<close> is an exception that
  leaves the action; the \<open>catch\<close> turns every fault of the gateway into a result.
  \<open>revalidatePath\<close> acts on the page cache only and is left out.
\<close>

definition createWorkoutAction ::
    "(string \<Rightarrow> timestamp option) \<Rightarrow> string option \<Rightarrow> timestamp \<Rightarrow> db \<Rightarrow> create_input
       \<Rightarrow> exn + action_result \<times> db" where
  "createWorkoutAction parse_date auth now d input =
     (case createWorkoutSchema_parse input of
        Inl e \<Rightarrow> Inl e
      | Inr validatedData \<Rightarrow>
          (case auth of
             None \<Rightarrow> Inr (Failure ''Unauthorized'', d)
           | Some userId \<Rightarrow>
               if userId = [] then Inr (Failure ''Unauthorized'', d)
               else (case parse_date (cv_date validatedData @ ''T00:00:00'') of
                       None \<Rightarrow> Inr (Failure ''Failed to create workout'', d)
                     | Some workoutDate \<Rightarrow>
                         (case createWorkout now d
                                 \<lparr> cd_name = cv_name validatedData, cd_date = workoutDate,
                                   cd_notes = cv_notes validatedData, cd_userId = userId \<rparr> of
                            Inl _ \<Rightarrow> Inr (Failure ''Failed to create workout'', d)
                          | Inr (workout, d') \<Rightarrow> Inr (Success workout, d')))))"

definition updateWorkoutAction ::
    "(string \<Rightarrow> timestamp option) \<Rightarrow> string option \<Rightarrow> timestamp \<Rightarrow> db \<Rightarrow> update_input
       \<Rightarrow> exn + action_result \<times> db" where
  "updateWorkoutAction parse_date auth now d input =
     (case updateWorkoutSchema_parse input of
        Inl e \<Rightarrow> Inl e
      | Inr validatedData \<Rightarrow>
          (case auth of
             None \<Rightarrow> Inr (Failure ''Unauthorized'', d)
           | Some userId \<Rightarrow>
               if userId = [] then Inr (Failure ''Unauthorized'', d)
               else (case parse_date (uv_date validatedData @ ''T00:00:00'') of
                       None \<Rightarrow> Inr (Failure ''Failed to update workout'', d)
                     | Some workoutDate \<Rightarrow>
                         (case updateWorkout now d (uv_id validatedData) userId
                                 \<lparr> ud_name = Some (uv_name validatedData),
                                   ud_date = Some workoutDate,
                                   ud_notes = uv_notes validatedData \<rparr> of
                            Inl _ \<Rightarrow> Inr (Failure ''Failed to update workout'', d)
                          | Inr (None, d') \<Rightarrow> Inr (Failure ''Workout not found'', d')
                          | Inr (Some workout, d') \<Rightarrow> Inr (Success workout, d')))))"

section \<open>Calendar days, for the claim about the date range\<close>




text \<open>
  A zone whose offset is \<open>o1\<close> before the instant \<open>T\<close> and \<open>o2\<close> from \<open>T\<close> on. A local time
  that the change skips or repeats is read with the offset before the change, as the
  language specification says.
\<close>

definition one_change :: "int \<Rightarrow> timestamp \<Rightarrow> int \<Rightarrow> zone" where
  "one_change o1 T o2 =
     \<lparr> offset_at = (\<lambda>t. if t < T then o1 else o2),
       offset_of_local = (\<lambda>l. if l < T + max o1 o2 then o1 else o2) \<rparr>"

section \<open>The complete aggregate, for the claims about it\<close>

text \<open>
  An exercise together with every row of the sets table that belongs to it, in setNumber
  order.
\<close>

definition with_all_sets :: "db \<Rightarrow> exercise \<Rightarrow> exercise_with_sets" where
  "with_all_sets d e =
     exercise.extend e
       (exercise_with_sets.fields
          (sort_key s_setNumber (filter (\<lambda>s. s_exerciseId s = e_id e) (tbl_sets d))))"

section \<open>Valid payload fields, for the claims about the schemas\<close>

text \<open>
  What the claims call a valid field: an id that is a positive integer, a name of 1 to 255
  characters, a date that is a non-empty string, and notes that are absent or of at most
  1000 characters. \<open>issue_path\<close> is the field that an issue names.
\<close>

definition valid_id :: "rat option \<Rightarrow> bool" where
  "valid_id v = (case v of None \<Rightarrow> False | Some x \<Rightarrow> of_int \<lfloor>x\<rfloor> = x \<and> 0 < x)"

definition valid_name :: "string option \<Rightarrow> bool" where
  "valid_name v = (case v of None \<Rightarrow> False | Some s \<Rightarrow> 1 \<le> length s \<and> length s \<le> 255)"

definition valid_date :: "string option \<Rightarrow> bool" where
  "valid_date v = (case v of None \<Rightarrow> False | Some s \<Rightarrow> 1 \<le> length s)"

definition valid_notes :: "string option \<Rightarrow> bool" where
  "valid_notes v = (case v of None \<Rightarrow> True | Some s \<Rightarrow> length s \<le> 1000)"

fun issue_path :: "issue \<Rightarrow> string" where
  "issue_path (Issue c p m) = p"

section \<open>Example data\<close>

text \<open>
  Two owners with one workout each. Bob's workout is dated 2025-03-01T23:59:59 UTC; it
  has three exercises inserted with order 2, 1, 3, each with two sets inserted with
  setNumber 2, 1.
\<close>

definition bobs_workout :: workout where
  "bobs_workout = \<lparr> w_id = 1, w_userId = ''bob'', w_name = ''Leg Day'',
      w_date = 1740873599000, w_notes = Some ''heavy'',
      w_createdAt = 1740000000000, w_updatedAt = 1740000000000 \<rparr>"

definition alices_workout :: workout where
  "alices_workout = \<lparr> w_id = 2, w_userId = ''alice'', w_name = ''Run'',
      w_date = 1740820000000, w_notes = None,
      w_createdAt = 1740000005000, w_updatedAt = 1740000005000 \<rparr>"

definition mk_exercise :: "int \<Rightarrow> int \<Rightarrow> string \<Rightarrow> exercise" where
  "mk_exercise i ord n = \<lparr> e_id = i, e_workoutId = 1, e_exerciseLibraryId = None,
      e_name = n, e_order = ord, e_notes = None, e_createdAt = 1740000001000 \<rparr>"

definition mk_set :: "int \<Rightarrow> int \<Rightarrow> int \<Rightarrow> set_row" where
  "mk_set i ex num = \<lparr> s_id = i, s_exerciseId = ex, s_setNumber = num, s_reps = 8,
      s_weight = Some 100, s_createdAt = 1740000002000 \<rparr>"

definition example_db :: db where
  "example_db = \<lparr>
      tbl_workouts = [bobs_workout, alices_workout],
      tbl_exercises = [mk_exercise 1 2 ''Squat'', mk_exercise 2 1 ''Lunge'',
                       mk_exercise 3 3 ''Calf Raise''],
      tbl_sets = [mk_set 1 1 2, mk_set 2 1 1, mk_set 3 2 2, mk_set 4 2 1,
                  mk_set 5 3 2, mk_set 6 3 1],
      workouts_seq = 3,
      rejects = (\<lambda>_. False) \<rparr>"

definition rename :: update_data where
  "rename = \<lparr> ud_name = Some ''Mine now'', ud_date = None, ud_notes = None \<rparr>"

definition leg_day :: create_data where
  "leg_day = \<lparr> cd_name = ''Leg Day'', cd_date = 1740787200000, cd_notes = Some ''heavy'',
      cd_userId = ''carol'' \<rparr>"

definition no_fields :: update_data where
  "no_fields = \<lparr> ud_name = None, ud_date = None, ud_notes = None \<rparr>"

definition renamed :: workout where
  "renamed = bobs_workout\<lparr> w_name := ''Mine now'', w_updatedAt := 1740000009000 \<rparr>"

definition leg_day_row :: workout where
  "leg_day_row = \<lparr> w_id = 3, w_userId = ''carol'', w_name = ''Leg Day'',
      w_date = 1740787200000, w_notes = Some ''heavy'',
      w_createdAt = 1740000009000, w_updatedAt = 1740000009000 \<rparr>"

definition bobs_aggregate :: workout_with_exercises where
  "bobs_aggregate =
     workout.extend bobs_workout
       (workout_with_exercises.fields
          [exercise.extend (mk_exercise 2 1 ''Lunge'')
             (exercise_with_sets.fields [mk_set 4 2 1, mk_set 3 2 2]),
           exercise.extend (mk_exercise 1 2 ''Squat'')
             (exercise_with_sets.fields [mk_set 2 1 1, mk_set 1 1 2]),
           exercise.extend (mk_exercise 3 3 ''Calf Raise'')
             (exercise_with_sets.fields [mk_set 6 3 1, mk_set 5 3 2])])"

definition flaky_db :: db where
  "flaky_db = example_db\<lparr> rejects := (\<lambda>s. s = SelectSets 2) \<rparr>"

definition workouts_only_db :: db where
  "workouts_only_db = example_db\<lparr> rejects := (\<lambda>s. s \<noteq> SelectWorkouts) \<rparr>"

definition example_parse_date :: "string \<Rightarrow> timestamp option" where
  "example_parse_date s =
     (if s = ''2025-03-01T00:00:00'' then Some 1740787200000
      else if s = ''2025-03-02T00:00:00'' then Some 1740873600000
      else None)"

definition leg_day_input :: create_input where
  "leg_day_input = \<lparr> ci_name = Some ''Leg Day'', ci_date = Some ''2025-03-01'',
      ci_notes = Some ''heavy'' \<rparr>"

definition empty_name_input :: create_input where
  "empty_name_input = \<lparr> ci_name = Some '''', ci_date = Some ''2025-03-01'',
      ci_notes = None \<rparr>"

definition edit_input :: update_input where
  "edit_input = \<lparr> ui_id = Some 1, ui_name = Some ''Leg Day 2'', ui_date = Some ''2025-03-02'',
      ui_notes = None \<rparr>"

definition bare_id_input :: update_input where
  "bare_id_input = \<lparr> ui_id = Some 1, ui_name = None, ui_date = None, ui_notes = None \<rparr>"

definition edited :: workout where
  "edited = bobs_workout\<lparr> w_name := ''Leg Day 2'', w_date := 1740873600000,
      w_updatedAt := 1740000009000 \<rparr>"

text \<open>
  A create payload whose date is not a date, and an update payload whose id is beyond the
  range of the \<open>integer()\<close> column.
\<close>

definition undated_input :: create_input where
  "undated_input = \<lparr> ci_name = Some ''Leg Day'', ci_date = Some ''someday'',
      ci_notes = None \<rparr>"

definition far_input :: update_input where
  "far_input = \<lparr> ui_id = Some 2147483648, ui_name = Some ''Leg Day 2'',
      ui_date = Some ''2025-03-02'', ui_notes = None \<rparr>"

text \<open>
  Two zones: one without any change of offset, and New York around the start of daylight
  saving time in 2025 (five hours behind UTC until 2025-03-09T07:00:00Z, four hours behind
  from then on). \<open>spring_db\<close> holds Bob's workouts around that day, inserted out of date
  order: at 00:30 of the next local day, at the last and at the first millisecond of
  2025-03-09, at the last millisecond of the day before, and at 23:59:59 of 2025-03-01,
  all in New York time; and one workout of Alice's on 2025-03-09.
\<close>

definition utc :: zone where
  "utc = one_change 0 0 0"




section \<open>Facts about lists and rows\<close>

lemma filter_other_owner:
  assumes "distinct (map w_id ws)" and "w \<in> set ws" and "w_userId w \<noteq> A"
  shows "filter (\<lambda>x. w_id x = w_id w \<and> w_userId x = A) ws = []"
proof -
  have "x = w" if "x \<in> set ws" "w_id x = w_id w" for x
    using assms(1,2) that by (simp add: distinct_map inj_on_def)
  with assms(3) show ?thesis by (auto simp: filter_empty_conv)
qed

lemma map_if_no_match:
  "filter P xs = [] \<Longrightarrow> map (\<lambda>x. if P x then f x else x) xs = xs"
  by (induction xs) (simp_all split: if_splits)

lemma filter_Cons_hd:
  assumes "filter P xs = w # r"
  shows "P w \<and> w \<in> set xs"
proof -
  have "w \<in> set (filter P xs)" by (simp add: assms)
  then show ?thesis by simp
qed

lemma take_1_Cons:
  assumes "take 1 (filter P xs) = w # r"
  shows "P w \<and> w \<in> set xs"
proof (cases "filter P xs")
  case Nil
  with assms show ?thesis by simp
next
  case (Cons y ys)
  with assms have "y = w" by simp
  with filter_Cons_hd[OF Cons] show ?thesis by simp
qed

lemma list_all2_map_if:
  "list_all2 (\<lambda>x y. \<not> P x \<longrightarrow> y = x) xs (map (\<lambda>x. if P x then f x else x) xs)"
  by (induction xs) simp_all

lemma set_columns_frame:
  "w_id (set_columns now data w) = w_id w \<and>
   w_userId (set_columns now data w) = w_userId w \<and>
   w_createdAt (set_columns now data w) = w_createdAt w \<and>
   w_updatedAt (set_columns now data w) = now"
  by (simp add: set_columns_def)

lemma filter_absent_id:
  assumes "i \<notin> w_id ` set ws"
  shows "filter (\<lambda>x. w_id x = i \<and> w_userId x = A) ws = []"
  using assms by (auto simp: filter_empty_conv)

lemma filter_own_row:
  assumes "distinct (map w_id ws)" and "w \<in> set ws"
  shows "filter (\<lambda>x. w_id x = w_id w \<and> w_userId x = w_userId w) ws = [w]"
  using assms
proof (induction ws)
  case Nil
  then show ?case by simp
next
  case (Cons y ys)
  show ?case
  proof (cases "y = w")
    case True
    with Cons.prems have "w_id w \<notin> w_id ` set ys" by simp
    then have "filter (\<lambda>x. w_id x = w_id w \<and> w_userId x = w_userId w) ys = []"
      by (rule filter_absent_id)
    with True show ?thesis by simp
  next
    case False
    with Cons.prems have "w \<in> set ys" and "distinct (map w_id ys)" and "w_id y \<noteq> w_id w"
      by auto
    with Cons.IH show ?thesis by simp
  qed
qed

lemma list_all2_map_self:
  assumes "\<And>x. x \<in> set xs \<Longrightarrow> Q x (f x)"
  shows "list_all2 Q xs (map f xs)"
  using assms by (simp add: list_all2_map2 list_all2_same)

lemma map_fix_iff: "map f xs = xs \<longleftrightarrow> (\<forall>x \<in> set xs. f x = x)"
proof -
  have "map f xs = xs \<longleftrightarrow> map f xs = map (\<lambda>x. x) xs" by simp
  also have "\<dots> \<longleftrightarrow> (\<forall>x \<in> set xs. f x = x)" by (rule map_eq_conv)
  finally show ?thesis .
qed

lemma matches_own_row:
  assumes "distinct (map w_id ws)" and "w \<in> set ws" and "x \<in> set ws"
  shows "(w_id x = w_id w \<and> w_userId x = w_userId w) \<longleftrightarrow> x = w"
  using assms by (auto simp: distinct_map inj_on_def)

section \<open>The day of a timestamp\<close>

















section \<open>What each gateway operation returns and writes\<close>

lemma list_owner: "getUserWorkouts d A = Inr ws \<Longrightarrow> x \<in> set ws \<Longrightarrow> w_userId x = A"
  by (auto simp: getUserWorkouts_def split: if_splits)

lemma list_by_date_owner:
  "getUserWorkoutsByDate z d A date = Inr ws \<Longrightarrow> x \<in> set ws \<Longrightarrow> w_userId x = A"
  by (auto simp: getUserWorkoutsByDate_def Let_def split: if_splits)

lemma get_owner:
  assumes "getUserWorkout d i A = Inr (Some x)"
  shows "w_userId x = A \<and> w_id x = i \<and> x \<in> set (tbl_workouts d)"
proof -
  from assms obtain r where
    "take 1 (filter (\<lambda>w. w_id w = i \<and> w_userId w = A) (tbl_workouts d)) = x # r"
    by (auto simp: getUserWorkout_def split: if_splits list.splits)
  from take_1_Cons[OF this] show ?thesis by simp
qed

lemma agg_owner:
  assumes "getUserWorkoutWithExercises d i A = Inr (Some x)"
  shows "w_userId x = A \<and> w_id x = i"
proof -
  from assms obtain w r where
    t: "take 1 (filter (\<lambda>w. w_id w = i \<and> w_userId w = A) (tbl_workouts d)) = w # r"
    and "w_userId x = w_userId w" and "w_id x = w_id w"
    by (auto simp: getUserWorkoutWithExercises_def Let_def workout.defs
             split: if_splits list.splits sum.splits)
  with take_1_Cons[OF t] show ?thesis by simp
qed

lemma update_returning_owner:
  assumes "updateWorkout now d i A data = Inr (Some x, d')"
  shows "w_userId x = A \<and> w_id x = i"
proof -
  from assms obtain w r where
    f: "filter (\<lambda>w. w_id w = i \<and> w_userId w = A) (tbl_workouts d) = w # r"
    and "x = set_columns now data w"
    by (auto simp: updateWorkout_def Let_def split: if_splits list.splits)
  with filter_Cons_hd[OF f] show ?thesis by (simp add: set_columns_frame)
qed

lemma update_others_unchanged:
  assumes "updateWorkout now d i A data = Inr (r, d')"
  shows "list_all2 (\<lambda>x y. w_userId x \<noteq> A \<longrightarrow> y = x) (tbl_workouts d) (tbl_workouts d')"
proof -
  let ?P = "\<lambda>w. w_id w = i \<and> w_userId w = A"
  from assms have
    "tbl_workouts d' = map (\<lambda>w. if ?P w then set_columns now data w else w) (tbl_workouts d)"
    by (auto simp: updateWorkout_def Let_def split: if_splits)
  moreover have "list_all2 (\<lambda>x y. \<not> ?P x \<longrightarrow> y = x) (tbl_workouts d)
     (map (\<lambda>w. if ?P w then set_columns now data w else w) (tbl_workouts d))"
    by (rule list_all2_map_if)
  ultimately show ?thesis
    by (auto elim!: list_all2_mono)
qed

lemma create_appends:
  assumes "createWorkout now d data = Inr (x, d')"
  shows "w_userId x = cd_userId data \<and> tbl_workouts d' = tbl_workouts d @ [x]"
  using assms by (auto simp: createWorkout_def Let_def split: if_splits)

lemma get_no_match:
  assumes "filter (\<lambda>w. w_id w = i \<and> w_userId w = A) (tbl_workouts d) = []"
  shows "getUserWorkout d i A =
           (if rejects d SelectWorkouts \<or> \<not> int4 i then Inl PersistenceFailure else Inr None)"
  by (simp add: getUserWorkout_def assms)

lemma update_no_match:
  assumes "filter (\<lambda>w. w_id w = i \<and> w_userId w = A) (tbl_workouts d) = []"
  shows "updateWorkout now d i A data =
           (if rejects d UpdateWorkouts \<or> \<not> int4 i then Inl PersistenceFailure
            else Inr (None, d))"
proof -
  have "d\<lparr>tbl_workouts := tbl_workouts d\<rparr> = d" by simp
  then show ?thesis
    by (simp add: updateWorkout_def Let_def assms map_if_no_match[OF assms])
qed

lemma update_result:
  assumes "updateWorkout now d i A data = Inr (r, d')"
  shows "\<not> rejects d UpdateWorkouts \<and>
     d' = d\<lparr> tbl_workouts :=
              map (\<lambda>w. if w_id w = i \<and> w_userId w = A then set_columns now data w else w)
                (tbl_workouts d) \<rparr> \<and>
     r = (case filter (\<lambda>w. w_id w = i \<and> w_userId w = A) (tbl_workouts d) of
            [] \<Rightarrow> None | w # _ \<Rightarrow> Some (set_columns now data w)) \<and>
     int4 i"
  using assms by (auto simp: updateWorkout_def Let_def split: if_splits list.splits)

lemma create_result:
  assumes "\<not> rejects d InsertWorkouts" and "int4 (workouts_seq d)"
    and "workouts_seq d \<notin> w_id ` set (tbl_workouts d)"
  shows "createWorkout now d data =
     Inr (\<lparr> w_id = workouts_seq d, w_userId = cd_userId data, w_name = cd_name data,
            w_date = cd_date data, w_notes = cd_notes data, w_createdAt = now,
            w_updatedAt = now \<rparr>,
          d\<lparr> tbl_workouts := tbl_workouts d @
                 [\<lparr> w_id = workouts_seq d, w_userId = cd_userId data, w_name = cd_name data,
                    w_date = cd_date data, w_notes = cd_notes data, w_createdAt = now,
                    w_updatedAt = now \<rparr>],
             workouts_seq := workouts_seq d + 1 \<rparr>)"
  using assms by (simp add: createWorkout_def Let_def)

section \<open>The aggregate fetch, case by case\<close>

lemma fetch_sets_eq:
  "fetch_sets d e =
     (if rejects d (SelectSets (e_id e)) then Inl PersistenceFailure
      else Inr (with_all_sets d e))"
  by (simp add: fetch_sets_def with_all_sets_def)

lemma fetch_all:
  "Promise_all (map (fetch_sets d) es) =
     (if \<exists>e \<in> set es. rejects d (SelectSets (e_id e)) then Inl PersistenceFailure
      else Inr (map (with_all_sets d) es))"
  by (induction es) (simp_all add: fetch_sets_eq)

lemma with_all_sets_sel:
  "e_order (with_all_sets d e) = e_order e"
  "e_id (with_all_sets d e) = e_id e"
  "sets (with_all_sets d e) =
     sort_key s_setNumber (filter (\<lambda>s. s_exerciseId s = e_id e) (tbl_sets d))"
  by (simp_all add: with_all_sets_def exercise.defs exercise_with_sets.defs)

lemma get_cases:
  "getUserWorkout d i u =
     (if rejects d SelectWorkouts \<or> \<not> int4 i then Inl PersistenceFailure
      else case filter (\<lambda>w. w_id w = i \<and> w_userId w = u) (tbl_workouts d) of
             [] \<Rightarrow> Inr None | w # _ \<Rightarrow> Inr (Some w))"
  by (cases "filter (\<lambda>w. w_id w = i \<and> w_userId w = u) (tbl_workouts d)")
     (simp_all add: getUserWorkout_def)

lemma agg_cases:
  "getUserWorkoutWithExercises d i u =
     (case getUserWorkout d i u of
        Inl e \<Rightarrow> Inl e
      | Inr None \<Rightarrow> Inr None
      | Inr (Some w) \<Rightarrow>
          if rejects d SelectExercises \<or>
             (\<exists>e \<in> set (tbl_exercises d). e_workoutId e = i \<and> rejects d (SelectSets (e_id e)))
          then Inl PersistenceFailure
          else Inr (Some (workout.extend w
                 (workout_with_exercises.fields
                    (map (with_all_sets d)
                       (sort_key e_order
                          (filter (\<lambda>e. e_workoutId e = i) (tbl_exercises d))))))))"
  by (cases "filter (\<lambda>w. w_id w = i \<and> w_userId w = u) (tbl_workouts d)")
     (auto simp: getUserWorkoutWithExercises_def get_cases fetch_all Let_def)


lemma bobs_aggregate_run:
  "getUserWorkoutWithExercises example_db 1 ''bob'' = Inr (Some bobs_aggregate)"
  by (simp add: agg_cases get_cases int4_def example_db_def bobs_workout_def
        alices_workout_def mk_exercise_def mk_set_def with_all_sets_def bobs_aggregate_def)

section \<open>The schemas, field by field, and the actions\<close>

lemma name_field:
  "z_string ''name'' (\<lambda>s. min_len ''name'' 1 ''Name is required'' s @
                        max_len ''name'' 255 ''Name too long'' s) v =
     (case v of
        None \<Rightarrow> Inl [Issue invalid_type ''name'' None]
      | Some s \<Rightarrow>
          if length s < 1 then Inl [Issue too_small ''name'' (Some ''Name is required'')]
          else if 255 < length s then Inl [Issue too_big ''name'' (Some ''Name too long'')]
          else Inr s)"
  by (simp add: z_string_def min_len_def max_len_def split: option.splits)

lemma date_field:
  "z_string ''date'' (min_len ''date'' 1 ''Date is required'') v =
     (case v of
        None \<Rightarrow> Inl [Issue invalid_type ''date'' None]
      | Some s \<Rightarrow>
          if length s < 1 then Inl [Issue too_small ''date'' (Some ''Date is required'')]
          else Inr s)"
  by (simp add: z_string_def min_len_def split: option.splits)

lemma notes_field:
  "z_string_optional (max_len ''notes'' 1000 ''Notes too long'') v =
     (case v of
        None \<Rightarrow> Inr None
      | Some s \<Rightarrow>
          if 1000 < length s then Inl [Issue too_big ''notes'' (Some ''Notes too long'')]
          else Inr (Some s))"
  by (simp add: z_string_optional_def max_len_def split: option.splits)

lemma id_field:
  "z_number_int_positive ''id'' v =
     (case v of
        None \<Rightarrow> Inl [Issue invalid_type ''id'' None]
      | Some x \<Rightarrow>
          if of_int \<lfloor>x\<rfloor> = x \<and> 0 < x then Inr \<lfloor>x\<rfloor>
          else if of_int \<lfloor>x\<rfloor> = x then Inl [Issue too_small ''id'' None]
          else if 0 < x then Inl [Issue invalid_type ''id'' None]
          else Inl [Issue invalid_type ''id'' None, Issue too_small ''id'' None])"
  by (simp add: z_number_int_positive_def split: option.splits)


lemma name_field_facts:
  fixes v :: "string option"
  defines "r \<equiv> z_string ''name'' (\<lambda>s. min_len ''name'' 1 ''Name is required'' s @
                        max_len ''name'' 255 ''Name too long'' s) v"
  shows "isl r = (\<not> valid_name v)"
    and "set (map issue_path (issues_of r)) = (if valid_name v then {} else {''name''})"
    and "valid_name v \<Longrightarrow> v = Some (projr r)"
proof -
  show "isl r = (\<not> valid_name v)"
    unfolding r_def name_field by (cases v) (simp_all add: valid_name_def Suc_le_eq)
  show "set (map issue_path (issues_of r)) = (if valid_name v then {} else {''name''})"
    unfolding r_def name_field by (cases v) (simp_all add: valid_name_def issues_of_def Suc_le_eq)
  show "valid_name v \<Longrightarrow> v = Some (projr r)"
    unfolding r_def name_field by (cases v) (simp_all add: valid_name_def Suc_le_eq split: if_splits)
qed

lemma date_field_facts:
  fixes v :: "string option"
  defines "r \<equiv> z_string ''date'' (min_len ''date'' 1 ''Date is required'') v"
  shows "isl r = (\<not> valid_date v)"
    and "set (map issue_path (issues_of r)) = (if valid_date v then {} else {''date''})"
    and "valid_date v \<Longrightarrow> v = Some (projr r)"
proof -
  show "isl r = (\<not> valid_date v)"
    unfolding r_def date_field by (cases v) (simp_all add: valid_date_def Suc_le_eq)
  show "set (map issue_path (issues_of r)) = (if valid_date v then {} else {''date''})"
    unfolding r_def date_field by (cases v) (simp_all add: valid_date_def issues_of_def Suc_le_eq)
  show "valid_date v \<Longrightarrow> v = Some (projr r)"
    unfolding r_def date_field by (cases v) (simp_all add: valid_date_def Suc_le_eq split: if_splits)
qed

lemma id_field_facts:
  fixes v :: "rat option"
  defines "r \<equiv> z_number_int_positive ''id'' v"
  shows "isl r = (\<not> valid_id v)"
    and "set (map issue_path (issues_of r)) = (if valid_id v then {} else {''id''})"
    and "valid_id v \<Longrightarrow> v = Some (of_int (projr r))"
proof -
  show "isl r = (\<not> valid_id v)"
    unfolding r_def id_field by (cases v) (simp_all add: valid_id_def)
  show "set (map issue_path (issues_of r)) = (if valid_id v then {} else {''id''})"
  proof (cases v)
    case None
    then show ?thesis unfolding r_def id_field by (simp add: valid_id_def issues_of_def)
  next
    case (Some x)
    consider (ok) "of_int \<lfloor>x\<rfloor> = x" "0 < x" | (np) "of_int \<lfloor>x\<rfloor> = x" "\<not> 0 < x"
      | (ni) "of_int \<lfloor>x\<rfloor> \<noteq> x" "0 < x" | (nn) "of_int \<lfloor>x\<rfloor> \<noteq> x" "\<not> 0 < x"
      by blast
    then show ?thesis
      unfolding r_def id_field Some valid_id_def
      by cases (simp_all add: issues_of_def del: of_int_floor_cancel)
  qed
  show "valid_id v \<Longrightarrow> v = Some (of_int (projr r))"
    unfolding r_def id_field by (cases v) (auto simp add: valid_id_def split: if_splits)
qed

lemma notes_field_facts:
  fixes v :: "string option"
  defines "r \<equiv> z_string_optional (max_len ''notes'' 1000 ''Notes too long'') v"
  shows "isl r = (\<not> valid_notes v)"
    and "set (map issue_path (issues_of r)) = (if valid_notes v then {} else {''notes''})"
    and "valid_notes v \<Longrightarrow> v = projr r"
  unfolding r_def notes_field
  by (cases v; simp add: valid_notes_def issues_of_def)+

lemma combine3:
  "(case (rn, rd, rt) of
      (Inr n, Inr dt, Inr nt) \<Rightarrow> Inr (f n dt nt)
    | _ \<Rightarrow> Inl (ZodError (issues_of rn @ issues_of rd @ issues_of rt))) =
   (if isl rn \<or> isl rd \<or> isl rt
    then Inl (ZodError (issues_of rn @ issues_of rd @ issues_of rt))
    else Inr (f (projr rn) (projr rd) (projr rt)))"
  by (cases rn; cases rd; cases rt) simp_all

lemma combine4:
  "(case (ri, rn, rd, rt) of
      (Inr i, Inr n, Inr dt, Inr nt) \<Rightarrow> Inr (f i n dt nt)
    | _ \<Rightarrow> Inl (ZodError (issues_of ri @ issues_of rn @ issues_of rd @ issues_of rt))) =
   (if isl ri \<or> isl rn \<or> isl rd \<or> isl rt
    then Inl (ZodError (issues_of ri @ issues_of rn @ issues_of rd @ issues_of rt))
    else Inr (f (projr ri) (projr rn) (projr rd) (projr rt)))"
  by (cases ri; cases rn; cases rd; cases rt) simp_all


lemma create_parse_cases:
  "createWorkoutSchema_parse input =
     (if valid_name (ci_name input) \<and> valid_date (ci_date input) \<and> valid_notes (ci_notes input)
      then Inr \<lparr> cv_name = projr (z_string ''name''
                   (\<lambda>s. min_len ''name'' 1 ''Name is required'' s @
                        max_len ''name'' 255 ''Name too long'' s) (ci_name input)),
                 cv_date = projr (z_string ''date'' (min_len ''date'' 1 ''Date is required'')
                   (ci_date input)),
                 cv_notes = projr (z_string_optional (max_len ''notes'' 1000 ''Notes too long'')
                   (ci_notes input)) \<rparr>
      else Inl (ZodError
             (issues_of (z_string ''name''
                   (\<lambda>s. min_len ''name'' 1 ''Name is required'' s @
                        max_len ''name'' 255 ''Name too long'' s) (ci_name input)) @
              issues_of (z_string ''date'' (min_len ''date'' 1 ''Date is required'')
                   (ci_date input)) @
              issues_of (z_string_optional (max_len ''notes'' 1000 ''Notes too long'')
                   (ci_notes input)))))"
  unfolding createWorkoutSchema_parse_def Let_def combine3
    name_field_facts(1) date_field_facts(1) notes_field_facts(1)
  by simp

lemma create_parse_valid:
  assumes "valid_name (ci_name input) \<and> valid_date (ci_date input) \<and> valid_notes (ci_notes input)"
  shows "\<exists>v. createWorkoutSchema_parse input = Inr v \<and> ci_name input = Some (cv_name v) \<and>
           ci_date input = Some (cv_date v) \<and> cv_notes v = ci_notes input"
  using assms name_field_facts(3)[of "ci_name input"] date_field_facts(3)[of "ci_date input"]
    notes_field_facts(3)[of "ci_notes input"]
  unfolding create_parse_cases by simp

lemma create_parse_invalid:
  assumes "\<not> (valid_name (ci_name input) \<and> valid_date (ci_date input) \<and>
              valid_notes (ci_notes input))"
  shows "\<exists>i is. createWorkoutSchema_parse input = Inl (ZodError (i # is)) \<and>
           set (map issue_path (i # is)) =
             (if valid_name (ci_name input) then {} else {''name''}) \<union>
             (if valid_date (ci_date input) then {} else {''date''}) \<union>
             (if valid_notes (ci_notes input) then {} else {''notes''})"
proof -
  obtain xs where p: "createWorkoutSchema_parse input = Inl (ZodError xs)"
    and xs: "set (map issue_path xs) =
             (if valid_name (ci_name input) then {} else {''name''}) \<union>
             (if valid_date (ci_date input) then {} else {''date''}) \<union>
             (if valid_notes (ci_notes input) then {} else {''notes''})"
    using assms unfolding create_parse_cases
    by (simp only: if_False map_append set_append name_field_facts(2) date_field_facts(2)
          notes_field_facts(2) Un_assoc)
  from assms xs have "set (map issue_path xs) \<noteq> {}" by auto
  then obtain i "is" where "xs = i # is" by (cases xs) auto
  with p xs show ?thesis by blast
qed


lemma update_parse_cases:
  "updateWorkoutSchema_parse input =
     (if valid_id (ui_id input) \<and> valid_name (ui_name input) \<and> valid_date (ui_date input) \<and>
         valid_notes (ui_notes input)
      then Inr \<lparr> uv_id = projr (z_number_int_positive ''id'' (ui_id input)),
                 uv_name = projr (z_string ''name''
                   (\<lambda>s. min_len ''name'' 1 ''Name is required'' s @
                        max_len ''name'' 255 ''Name too long'' s) (ui_name input)),
                 uv_date = projr (z_string ''date'' (min_len ''date'' 1 ''Date is required'')
                   (ui_date input)),
                 uv_notes = projr (z_string_optional (max_len ''notes'' 1000 ''Notes too long'')
                   (ui_notes input)) \<rparr>
      else Inl (ZodError
             (issues_of (z_number_int_positive ''id'' (ui_id input)) @
              issues_of (z_string ''name''
                   (\<lambda>s. min_len ''name'' 1 ''Name is required'' s @
                        max_len ''name'' 255 ''Name too long'' s) (ui_name input)) @
              issues_of (z_string ''date'' (min_len ''date'' 1 ''Date is required'')
                   (ui_date input)) @
              issues_of (z_string_optional (max_len ''notes'' 1000 ''Notes too long'')
                   (ui_notes input)))))"
  unfolding updateWorkoutSchema_parse_def Let_def combine4
    id_field_facts(1) name_field_facts(1) date_field_facts(1) notes_field_facts(1)
  by simp

lemma update_parse_valid:
  assumes "valid_id (ui_id input) \<and> valid_name (ui_name input) \<and> valid_date (ui_date input) \<and>
           valid_notes (ui_notes input)"
  shows "\<exists>v. updateWorkoutSchema_parse input = Inr v \<and>
           ui_id input = Some (of_int (uv_id v)) \<and> ui_name input = Some (uv_name v) \<and>
           ui_date input = Some (uv_date v) \<and> uv_notes v = ui_notes input"
  using assms id_field_facts(3)[of "ui_id input"] name_field_facts(3)[of "ui_name input"]
    date_field_facts(3)[of "ui_date input"] notes_field_facts(3)[of "ui_notes input"]
  unfolding update_parse_cases by simp

lemma update_parse_invalid:
  assumes "\<not> (valid_id (ui_id input) \<and> valid_name (ui_name input) \<and>
              valid_date (ui_date input) \<and> valid_notes (ui_notes input))"
  shows "\<exists>i is. updateWorkoutSchema_parse input = Inl (ZodError (i # is)) \<and>
           set (map issue_path (i # is)) =
             (if valid_id (ui_id input) then {} else {''id''}) \<union>
             (if valid_name (ui_name input) then {} else {''name''}) \<union>
             (if valid_date (ui_date input) then {} else {''date''}) \<union>
             (if valid_notes (ui_notes input) then {} else {''notes''})"
proof -
  obtain xs where p: "updateWorkoutSchema_parse input = Inl (ZodError xs)"
    and xs: "set (map issue_path xs) =
             (if valid_id (ui_id input) then {} else {''id''}) \<union>
             (if valid_name (ui_name input) then {} else {''name''}) \<union>
             (if valid_date (ui_date input) then {} else {''date''}) \<union>
             (if valid_notes (ui_notes input) then {} else {''notes''})"
    using assms unfolding update_parse_cases
    by (simp only: if_False map_append set_append id_field_facts(2) name_field_facts(2)
          date_field_facts(2) notes_field_facts(2) Un_assoc)
  from assms xs have "set (map issue_path xs) \<noteq> {}" by auto
  then obtain i "is" where "xs = i # is" by (cases xs) auto
  with p xs show ?thesis by blast
qed

lemma create_action_throws:
  "createWorkoutSchema_parse input = Inl e \<Longrightarrow>
     createWorkoutAction pd auth now d input = Inl e"
  by (simp add: createWorkoutAction_def)

lemma update_action_throws:
  "updateWorkoutSchema_parse input = Inl e \<Longrightarrow>
     updateWorkoutAction pd auth now d input = Inl e"
  by (simp add: updateWorkoutAction_def)


lemma update_parse_Inr:
  assumes "updateWorkoutSchema_parse input = Inr v"
  shows "valid_id (ui_id input) \<and> valid_name (ui_name input) \<and> valid_date (ui_date input) \<and>
         valid_notes (ui_notes input) \<and>
         ui_id input = Some (of_int (uv_id v)) \<and> ui_name input = Some (uv_name v) \<and>
         ui_date input = Some (uv_date v) \<and> uv_notes v = ui_notes input"
proof (cases "valid_id (ui_id input) \<and> valid_name (ui_name input) \<and>
              valid_date (ui_date input) \<and> valid_notes (ui_notes input)")
  case True
  from update_parse_valid[OF True] assms show ?thesis using True by auto
next
  case False
  from update_parse_invalid[OF False] assms show ?thesis by auto
qed

lemma update_keeps_omitted_notes:
  assumes "updateWorkout now d i A data = Inr (r, d')" and "ud_notes data = None"
  shows "list_all2 (\<lambda>x y. w_notes y = w_notes x) (tbl_workouts d) (tbl_workouts d')"
proof -
  from update_result[OF assms(1)] have
    "tbl_workouts d' =
       map (\<lambda>w. if w_id w = i \<and> w_userId w = A then set_columns now data w else w)
         (tbl_workouts d)"
    by simp
  moreover have "list_all2 (\<lambda>x y. w_notes y = w_notes x) (tbl_workouts d)
       (map (\<lambda>w. if w_id w = i \<and> w_userId w = A then set_columns now data w else w)
         (tbl_workouts d))"
    by (rule list_all2_map_self) (simp add: set_columns_def assms(2))
  ultimately show ?thesis by simp
qed

lemma update_action_db:
  assumes "updateWorkoutAction pd auth now d input = Inr (r, d')"
  shows "d' = d \<or>
         (\<exists>v u t r0. updateWorkoutSchema_parse input = Inr v \<and>
            updateWorkout now d (uv_id v) u
              \<lparr> ud_name = Some (uv_name v), ud_date = Some t, ud_notes = uv_notes v \<rparr> =
            Inr (r0, d'))"
  using assms
  by (auto simp: updateWorkoutAction_def split: sum.splits option.splits if_splits prod.splits)

lemma list_all2_same_notes: "list_all2 (\<lambda>x y. w_notes y = w_notes x) xs xs"
  by (simp add: list_all2_same)

lemma leg_day_input_valid:
  "valid_name (ci_name leg_day_input) \<and> valid_date (ci_date leg_day_input) \<and>
   valid_notes (ci_notes leg_day_input)"
  by (simp add: leg_day_input_def valid_name_def valid_date_def valid_notes_def)

lemma edit_input_valid:
  "valid_id (ui_id edit_input) \<and> valid_name (ui_name edit_input) \<and>
   valid_date (ui_date edit_input) \<and> valid_notes (ui_notes edit_input)"
  by (simp add: edit_input_def valid_id_def valid_name_def valid_date_def valid_notes_def)

lemma empty_name_input_invalid:
  "\<not> valid_name (ci_name empty_name_input) \<and> valid_date (ci_date empty_name_input) \<and>
   valid_notes (ci_notes empty_name_input)"
  by (simp add: empty_name_input_def valid_name_def valid_date_def valid_notes_def)

lemma bare_id_input_invalid:
  "valid_id (ui_id bare_id_input) \<and> \<not> valid_name (ui_name bare_id_input) \<and>
   \<not> valid_date (ui_date bare_id_input) \<and> valid_notes (ui_notes bare_id_input)"
  by (simp add: bare_id_input_def valid_id_def valid_name_def valid_date_def valid_notes_def)

lemma edit_action_run:
  "updateWorkoutAction example_parse_date (Some ''bob'') 1740000009000 example_db edit_input =
   Inr (Success edited, example_db\<lparr> tbl_workouts := [edited, alices_workout] \<rparr>)"
  by (simp add: updateWorkoutAction_def updateWorkoutSchema_parse_def edit_input_def
        z_number_int_positive_def z_string_def z_string_optional_def min_len_def max_len_def
        example_parse_date_def updateWorkout_def Let_def set_columns_def int4_def
        example_db_def bobs_workout_def alices_workout_def edited_def)

lemma create_action_valid:
  assumes "valid_name (ci_name cin) \<and> valid_date (ci_date cin) \<and> valid_notes (ci_notes cin)"
    and "ci_name cin = Some n" and "ci_date cin = Some ds"
  shows "createWorkoutAction pd auth now d cin =
     (case auth of
        None \<Rightarrow> Inr (Failure ''Unauthorized'', d)
      | Some u \<Rightarrow>
          if u = [] then Inr (Failure ''Unauthorized'', d)
          else (case pd (ds @ ''T00:00:00'') of
                  None \<Rightarrow> Inr (Failure ''Failed to create workout'', d)
                | Some t \<Rightarrow>
                    (case createWorkout now d
                            \<lparr> cd_name = n, cd_date = t, cd_notes = ci_notes cin,
                              cd_userId = u \<rparr> of
                       Inl _ \<Rightarrow> Inr (Failure ''Failed to create workout'', d)
                     | Inr (w, d') \<Rightarrow> Inr (Success w, d'))))"
proof -
  from create_parse_valid[OF assms(1)] obtain v where
    p: "createWorkoutSchema_parse cin = Inr v"
    and "ci_name cin = Some (cv_name v)" and "ci_date cin = Some (cv_date v)"
    and nt: "cv_notes v = ci_notes cin"
    by blast
  with assms(2,3) have f: "cv_name v = n" "cv_date v = ds" by simp_all
  show ?thesis
    unfolding createWorkoutAction_def p f[symmetric] nt[symmetric] by simp
qed

lemma update_action_valid:
  assumes "valid_id (ui_id uin) \<and> valid_name (ui_name uin) \<and> valid_date (ui_date uin) \<and>
           valid_notes (ui_notes uin)"
    and "ui_id uin = Some (of_int k)" and "ui_name uin = Some m" and "ui_date uin = Some es"
  shows "updateWorkoutAction pd auth now d uin =
     (case auth of
        None \<Rightarrow> Inr (Failure ''Unauthorized'', d)
      | Some u \<Rightarrow>
          if u = [] then Inr (Failure ''Unauthorized'', d)
          else (case pd (es @ ''T00:00:00'') of
                  None \<Rightarrow> Inr (Failure ''Failed to update workout'', d)
                | Some t \<Rightarrow>
                    (case updateWorkout now d k u
                            \<lparr> ud_name = Some m, ud_date = Some t,
                              ud_notes = ui_notes uin \<rparr> of
                       Inl _ \<Rightarrow> Inr (Failure ''Failed to update workout'', d)
                     | Inr (None, d') \<Rightarrow> Inr (Failure ''Workout not found'', d')
                     | Inr (Some w, d') \<Rightarrow> Inr (Success w, d'))))"
proof -
  from update_parse_valid[OF assms(1)] obtain v where
    p: "updateWorkoutSchema_parse uin = Inr v"
    and i: "ui_id uin = Some (of_int (uv_id v))"
    and "ui_name uin = Some (uv_name v)" and "ui_date uin = Some (uv_date v)"
    and nt: "uv_notes v = ui_notes uin"
    by blast
  with assms(3,4) have f: "uv_name v = m" "uv_date v = es" by simp_all
  from i assms(2) have "(of_int (uv_id v) :: rat) = of_int k" by simp
  then have k: "uv_id v = k" by (simp only: of_int_eq_iff)
  show ?thesis
    unfolding updateWorkoutAction_def p f[symmetric] nt[symmetric] k[symmetric] by simp
qed

lemma update_own_row:
  assumes "distinct (map w_id (tbl_workouts d))" and "w \<in> set (tbl_workouts d)"
    and "\<not> rejects d UpdateWorkouts" and "int4 (w_id w)"
  shows "updateWorkout now d (w_id w) (w_userId w) data =
     Inr (Some (set_columns now data w),
          d\<lparr> tbl_workouts :=
               map (\<lambda>x. if x = w then set_columns now data w else x) (tbl_workouts d) \<rparr>)"
proof -
  let ?P = "\<lambda>x. w_id x = w_id w \<and> w_userId x = w_userId w"
  have tbl: "map (\<lambda>x. if ?P x then set_columns now data x else x) (tbl_workouts d) =
      map (\<lambda>x. if x = w then set_columns now data w else x) (tbl_workouts d)"
    by (rule map_cong[OF refl]) (simp add: matches_own_row[OF assms(1,2)])
  have own: "filter ?P (tbl_workouts d) = [w]"
    using assms(1,2) by (rule filter_own_row)
  show ?thesis
    using assms(3,4) by (simp add: updateWorkout_def Let_def own tbl)
qed

lemma create_action_causes:
  assumes V: "valid_name (ci_name cin) \<and> valid_date (ci_date cin) \<and> valid_notes (ci_notes cin)"
    and n: "ci_name cin = Some n" and ds: "ci_date cin = Some ds"
  shows "auth = None \<or> auth = Some [] \<Longrightarrow>
         createWorkoutAction pd auth now d cin = Inr (Failure ''Unauthorized'', d)"
    and "auth = Some u \<and> u \<noteq> [] \<and>
       (pd (ds @ ''T00:00:00'') = None \<or> rejects d InsertWorkouts \<or>
        \<not> int4 (workouts_seq d) \<or> workouts_seq d \<in> w_id ` set (tbl_workouts d)) \<Longrightarrow>
         createWorkoutAction pd auth now d cin =
           Inr (Failure ''Failed to create workout'', d)"
    and "auth = Some u \<and> u \<noteq> [] \<and> pd (ds @ ''T00:00:00'') = Some t \<and>
       \<not> rejects d InsertWorkouts \<and> int4 (workouts_seq d) \<and>
       workouts_seq d \<notin> w_id ` set (tbl_workouts d) \<Longrightarrow>
         createWorkoutAction pd auth now d cin =
           Inr (Success \<lparr> w_id = workouts_seq d, w_userId = u, w_name = n, w_date = t,
                          w_notes = ci_notes cin, w_createdAt = now, w_updatedAt = now \<rparr>,
                d\<lparr> tbl_workouts := tbl_workouts d @
                       [\<lparr> w_id = workouts_seq d, w_userId = u, w_name = n, w_date = t,
                          w_notes = ci_notes cin, w_createdAt = now, w_updatedAt = now \<rparr>],
                   workouts_seq := workouts_seq d + 1 \<rparr>)"
proof -
  note A = create_action_valid[OF V n ds, of pd auth now d]
  show "auth = None \<or> auth = Some [] \<Longrightarrow>
         createWorkoutAction pd auth now d cin = Inr (Failure ''Unauthorized'', d)"
    unfolding A by auto
  show "auth = Some u \<and> u \<noteq> [] \<and>
       (pd (ds @ ''T00:00:00'') = None \<or> rejects d InsertWorkouts \<or>
        \<not> int4 (workouts_seq d) \<or> workouts_seq d \<in> w_id ` set (tbl_workouts d)) \<Longrightarrow>
         createWorkoutAction pd auth now d cin =
           Inr (Failure ''Failed to create workout'', d)"
    unfolding A by (cases "pd (ds @ ''T00:00:00'')") (auto simp: createWorkout_def)
  show "auth = Some u \<and> u \<noteq> [] \<and> pd (ds @ ''T00:00:00'') = Some t \<and>
       \<not> rejects d InsertWorkouts \<and> int4 (workouts_seq d) \<and>
       workouts_seq d \<notin> w_id ` set (tbl_workouts d) \<Longrightarrow>
         createWorkoutAction pd auth now d cin =
           Inr (Success \<lparr> w_id = workouts_seq d, w_userId = u, w_name = n, w_date = t,
                          w_notes = ci_notes cin, w_createdAt = now, w_updatedAt = now \<rparr>,
                d\<lparr> tbl_workouts := tbl_workouts d @
                       [\<lparr> w_id = workouts_seq d, w_userId = u, w_name = n, w_date = t,
                          w_notes = ci_notes cin, w_createdAt = now, w_updatedAt = now \<rparr>],
                   workouts_seq := workouts_seq d + 1 \<rparr>)"
    unfolding A by (simp add: createWorkout_def Let_def)
qed

lemma update_action_causes:
  assumes V: "valid_id (ui_id uin) \<and> valid_name (ui_name uin) \<and> valid_date (ui_date uin) \<and>
           valid_notes (ui_notes uin)"
    and k: "ui_id uin = Some (of_int k)" and m: "ui_name uin = Some m"
    and es: "ui_date uin = Some es"
  shows "auth = None \<or> auth = Some [] \<Longrightarrow>
         updateWorkoutAction pd auth now d uin = Inr (Failure ''Unauthorized'', d)"
    and "auth = Some u \<and> u \<noteq> [] \<and>
       (pd (es @ ''T00:00:00'') = None \<or> rejects d UpdateWorkouts \<or> \<not> int4 k) \<Longrightarrow>
         updateWorkoutAction pd auth now d uin =
           Inr (Failure ''Failed to update workout'', d)"
    and "auth = Some u \<and> u \<noteq> [] \<and> pd (es @ ''T00:00:00'') = Some t \<and>
       \<not> rejects d UpdateWorkouts \<and> int4 k \<and>
       (\<forall>x \<in> set (tbl_workouts d). w_id x = k \<longrightarrow> w_userId x \<noteq> u) \<Longrightarrow>
         updateWorkoutAction pd auth now d uin = Inr (Failure ''Workout not found'', d)"
    and "auth = Some u \<and> u \<noteq> [] \<and> pd (es @ ''T00:00:00'') = Some t \<and>
       \<not> rejects d UpdateWorkouts \<and> int4 k \<and>
       distinct (map w_id (tbl_workouts d)) \<and> w \<in> set (tbl_workouts d) \<and>
       w_id w = k \<and> w_userId w = u \<Longrightarrow>
         updateWorkoutAction pd auth now d uin =
           Inr (Success (w\<lparr> w_name := m, w_date := t,
                            w_notes := (case ui_notes uin of None \<Rightarrow> w_notes w
                                        | Some x \<Rightarrow> Some x),
                            w_updatedAt := now \<rparr>),
                d\<lparr> tbl_workouts :=
                     map (\<lambda>x. if x = w
                               then w\<lparr> w_name := m, w_date := t,
                                      w_notes := (case ui_notes uin of None \<Rightarrow> w_notes w
                                                  | Some x \<Rightarrow> Some x),
                                      w_updatedAt := now \<rparr>
                               else x) (tbl_workouts d) \<rparr>)"
proof -
  note A = update_action_valid[OF V k m es, of pd auth now d]
  show "auth = None \<or> auth = Some [] \<Longrightarrow>
         updateWorkoutAction pd auth now d uin = Inr (Failure ''Unauthorized'', d)"
    unfolding A by auto
  show "auth = Some u \<and> u \<noteq> [] \<and>
       (pd (es @ ''T00:00:00'') = None \<or> rejects d UpdateWorkouts \<or> \<not> int4 k) \<Longrightarrow>
         updateWorkoutAction pd auth now d uin =
           Inr (Failure ''Failed to update workout'', d)"
    unfolding A by (cases "pd (es @ ''T00:00:00'')") (auto simp: updateWorkout_def)
  show "updateWorkoutAction pd auth now d uin = Inr (Failure ''Workout not found'', d)"
    if h: "auth = Some u \<and> u \<noteq> [] \<and> pd (es @ ''T00:00:00'') = Some t \<and>
       \<not> rejects d UpdateWorkouts \<and> int4 k \<and>
       (\<forall>x \<in> set (tbl_workouts d). w_id x = k \<longrightarrow> w_userId x \<noteq> u)"
  proof -
    from h have "filter (\<lambda>x. w_id x = k \<and> w_userId x = u) (tbl_workouts d) = []"
      by (auto simp: filter_empty_conv)
    from update_no_match[OF this] h show ?thesis
      unfolding A by simp
  qed
  show "updateWorkoutAction pd auth now d uin =
           Inr (Success (w\<lparr> w_name := m, w_date := t,
                            w_notes := (case ui_notes uin of None \<Rightarrow> w_notes w
                                        | Some x \<Rightarrow> Some x),
                            w_updatedAt := now \<rparr>),
                d\<lparr> tbl_workouts :=
                     map (\<lambda>x. if x = w
                               then w\<lparr> w_name := m, w_date := t,
                                      w_notes := (case ui_notes uin of None \<Rightarrow> w_notes w
                                                  | Some x \<Rightarrow> Some x),
                                      w_updatedAt := now \<rparr>
                               else x) (tbl_workouts d) \<rparr>)"
    if h: "auth = Some u \<and> u \<noteq> [] \<and> pd (es @ ''T00:00:00'') = Some t \<and>
       \<not> rejects d UpdateWorkouts \<and> int4 k \<and>
       distinct (map w_id (tbl_workouts d)) \<and> w \<in> set (tbl_workouts d) \<and>
       w_id w = k \<and> w_userId w = u"
  proof -
    from h have "distinct (map w_id (tbl_workouts d))" "w \<in> set (tbl_workouts d)"
      "\<not> rejects d UpdateWorkouts" "int4 (w_id w)" by simp_all
    from update_own_row[OF this] h show ?thesis
      unfolding A by (simp add: set_columns_def)
  qed
qed

lemma undated_input_valid:
  "valid_name (ci_name undated_input) \<and> valid_date (ci_date undated_input) \<and>
   valid_notes (ci_notes undated_input)"
  by (simp add: undated_input_def valid_name_def valid_date_def valid_notes_def)

lemma far_input_valid:
  "valid_id (ui_id far_input) \<and> valid_name (ui_name far_input) \<and>
   valid_date (ui_date far_input) \<and> valid_notes (ui_notes far_input)"
  by (simp add: far_input_def valid_id_def valid_name_def valid_date_def valid_notes_def)

section \<open>The date range, and the lists of the example data\<close>








section \<open>The claims\<close>

text \<open>
  C1 (isolation). Let the ids of the workouts table be distinct (the primary key), let \<open>w\<close>
  be a row of it and \<open>A\<close> an identity other than \<open>w\<close>'s owner. Then \<open>getUserWorkout\<close>,
  called with \<open>w\<close>'s id and \<open>A\<close>, returns null, and \<open>updateWorkout\<close> returns no row and
  leaves the whole database as it was (each unless the store rejects the statement, as
  it does for an id outside the range of the column; then nothing is returned or written
  either). Moreover every workout that any
  gateway operation returns is owned by the identity passed in; \<open>updateWorkout\<close> leaves
  every row of another owner as it was, and \<open>createWorkout\<close> only appends a row owned by
  the identity it was given.
\<close>

theorem isolation:
  assumes "distinct (map w_id (tbl_workouts d))"
    and "w \<in> set (tbl_workouts d)"
    and "w_userId w \<noteq> A"
  shows
    "getUserWorkout d (w_id w) A =
       (if rejects d SelectWorkouts \<or> \<not> int4 (w_id w) then Inl PersistenceFailure
        else Inr None) \<and>
     updateWorkout now d (w_id w) A data =
       (if rejects d UpdateWorkouts \<or> \<not> int4 (w_id w) then Inl PersistenceFailure
        else Inr (None, d)) \<and>
     (\<forall>ws. getUserWorkouts d A = Inr ws \<longrightarrow> (\<forall>x \<in> set ws. w_userId x = A)) \<and>
     (\<forall>ws. getUserWorkoutsByDate z d A date = Inr ws \<longrightarrow> (\<forall>x \<in> set ws. w_userId x = A)) \<and>
     (\<forall>x. getUserWorkout d i A = Inr (Some x) \<longrightarrow> w_userId x = A) \<and>
     (\<forall>x. getUserWorkoutWithExercises d i A = Inr (Some x) \<longrightarrow> w_userId x = A) \<and>
     (\<forall>r d'. updateWorkout now d i A data = Inr (r, d') \<longrightarrow>
        (\<forall>x. r = Some x \<longrightarrow> w_userId x = A) \<and>
        list_all2 (\<lambda>x y. w_userId x \<noteq> A \<longrightarrow> y = x) (tbl_workouts d) (tbl_workouts d')) \<and>
     (\<forall>x d'. createWorkout now d c = Inr (x, d') \<longrightarrow>
        w_userId x = cd_userId c \<and> tbl_workouts d' = tbl_workouts d @ [x])"
proof -
  let ?P = "\<lambda>x. w_id x = w_id w \<and> w_userId x = A"
  have none: "filter ?P (tbl_workouts d) = []"
    using assms by (rule filter_other_owner)
  note g = get_no_match[OF none] and u = update_no_match[OF none, of now data]
  show ?thesis
    using g u list_owner[of d A] list_by_date_owner[of z d A date] get_owner[of d i A]
      agg_owner[of d i A] update_returning_owner[of now d i A data]
      update_others_unchanged[of now d i A data] create_appends[of now d c]
    by blast
qed

theorem isolation_witness:
  "distinct (map w_id (tbl_workouts example_db)) \<and>
   bobs_workout \<in> set (tbl_workouts example_db) \<and>
   w_userId bobs_workout \<noteq> ''alice'' \<and>
   int4 (w_id bobs_workout) \<and>
   getUserWorkout example_db 1 ''alice'' = Inr None \<and>
   updateWorkout 1740000009000 example_db 1 ''alice'' rename = Inr (None, example_db) \<and>
   getUserWorkout example_db 1 ''bob'' = Inr (Some bobs_workout)"
proof -
  have h1: "distinct (map w_id (tbl_workouts example_db))"
    by (simp add: example_db_def bobs_workout_def alices_workout_def)
  have h2: "bobs_workout \<in> set (tbl_workouts example_db)"
    by (simp add: example_db_def)
  have h3: "w_userId bobs_workout \<noteq> ''alice''"
    by (simp add: bobs_workout_def)
  have id1: "w_id bobs_workout = 1" by (simp add: bobs_workout_def)
  have h4: "int4 (w_id bobs_workout)" by (simp add: bobs_workout_def int4_def)
  have ok: "\<not> (rejects example_db SelectWorkouts \<or> \<not> int4 1)"
    "\<not> (rejects example_db UpdateWorkouts \<or> \<not> int4 1)"
    by (simp_all add: example_db_def int4_def)
  have own: "getUserWorkout example_db 1 ''bob'' = Inr (Some bobs_workout)"
    by (simp add: getUserWorkout_def int4_def example_db_def bobs_workout_def
          alices_workout_def)
  note T = isolation[OF h1 h2 h3, where now = 1740000009000 and data = rename and z = utc
        and date = 0 and i = 1 and c = leg_day,
      unfolded id1 if_not_P[OF ok(1)] if_not_P[OF ok(2)]]
  from T h1 h2 h3 h4 own show ?thesis by blast
qed

text \<open>
  C2 (indistinguishable not-found). That every id of no row gives the result of another
  owner's id fails: the id 2147483648 is the id of no row, and it lies outside the range
  of the \<open>integer()\<close> column, so the store rejects the statement and the gateway raises,
  where another owner's id gives null, or no row.
\<close>

theorem not_found_indistinguishable_counterexample:
  "2147483648 \<notin> w_id ` set (tbl_workouts example_db) \<and>
   getUserWorkout example_db 2147483648 ''alice'' = Inl PersistenceFailure \<and>
   getUserWorkout example_db 1 ''alice'' = Inr None \<and>
   updateWorkout 1740000009000 example_db 2147483648 ''alice'' rename =
     Inl PersistenceFailure \<and>
   updateWorkout 1740000009000 example_db 1 ''alice'' rename = Inr (None, example_db)"
proof -
  have db: "example_db\<lparr>tbl_workouts := tbl_workouts example_db\<rparr> = example_db" by simp
  then show ?thesis
    by (simp add: getUserWorkout_def updateWorkout_def Let_def int4_def)
       (simp add: example_db_def bobs_workout_def alices_workout_def)
qed

text \<open>
  C2, amended. Let the ids of the workouts table be distinct, let \<open>id1\<close> be the id of no
  row and \<open>w\<close> a row owned by someone other than \<open>A\<close>, its id within the range of the
  column. When \<open>id1\<close> is within the range of the column, \<open>getUserWorkout\<close> for \<open>A\<close> gives the
  same result at \<open>id1\<close> and at \<open>w\<close>'s id, the bare null when the store answers, and
  \<open>updateWorkout\<close> for \<open>A\<close> with the same data gives the same result at both ids, no row
  and the database as it was. When \<open>id1\<close> is outside the range, both operations raise at
  \<open>id1\<close>.
\<close>

theorem not_found_indistinguishable:
  assumes "distinct (map w_id (tbl_workouts d))"
    and "id1 \<notin> w_id ` set (tbl_workouts d)"
    and "w \<in> set (tbl_workouts d)"
    and "w_userId w \<noteq> A"
    and "int4 (w_id w)"
  shows
    "(int4 id1 \<longrightarrow>
        getUserWorkout d id1 A = getUserWorkout d (w_id w) A \<and>
        updateWorkout now d id1 A data = updateWorkout now d (w_id w) A data) \<and>
     getUserWorkout d (w_id w) A =
       (if rejects d SelectWorkouts then Inl PersistenceFailure else Inr None) \<and>
     updateWorkout now d (w_id w) A data =
       (if rejects d UpdateWorkouts then Inl PersistenceFailure else Inr (None, d)) \<and>
     getUserWorkout d id1 A =
       (if rejects d SelectWorkouts \<or> \<not> int4 id1 then Inl PersistenceFailure else Inr None) \<and>
     updateWorkout now d id1 A data =
       (if rejects d UpdateWorkouts \<or> \<not> int4 id1 then Inl PersistenceFailure
        else Inr (None, d))"
proof -
  have absent: "filter (\<lambda>x. w_id x = id1 \<and> w_userId x = A) (tbl_workouts d) = []"
    using assms(2) by (rule filter_absent_id)
  have foreign: "filter (\<lambda>x. w_id x = w_id w \<and> w_userId x = A) (tbl_workouts d) = []"
    using assms(1,3,4) by (rule filter_other_owner)
  show ?thesis
    using assms(5)
    by (simp add: get_no_match[OF absent] get_no_match[OF foreign]
          update_no_match[OF absent] update_no_match[OF foreign])
qed

theorem not_found_indistinguishable_witness:
  "distinct (map w_id (tbl_workouts example_db)) \<and>
   7 \<notin> w_id ` set (tbl_workouts example_db) \<and>
   bobs_workout \<in> set (tbl_workouts example_db) \<and>
   w_userId bobs_workout \<noteq> ''alice'' \<and>
   int4 (w_id bobs_workout) \<and> int4 7 \<and>
   getUserWorkout example_db 7 ''alice'' = getUserWorkout example_db 1 ''alice'' \<and>
   getUserWorkout example_db 7 ''alice'' = Inr None \<and>
   updateWorkout 1740000009000 example_db 7 ''alice'' rename =
     updateWorkout 1740000009000 example_db 1 ''alice'' rename \<and>
   updateWorkout 1740000009000 example_db 7 ''alice'' rename = Inr (None, example_db) \<and>
   2147483648 \<notin> w_id ` set (tbl_workouts example_db) \<and> \<not> int4 2147483648 \<and>
   getUserWorkout example_db 2147483648 ''alice'' = Inl PersistenceFailure \<and>
   updateWorkout 1740000009000 example_db 2147483648 ''alice'' rename =
     Inl PersistenceFailure"
proof -
  have h1: "distinct (map w_id (tbl_workouts example_db))"
    by (simp add: example_db_def bobs_workout_def alices_workout_def)
  have h2: "7 \<notin> w_id ` set (tbl_workouts example_db)"
    by (simp add: example_db_def bobs_workout_def alices_workout_def)
  have h3: "bobs_workout \<in> set (tbl_workouts example_db)"
    by (simp add: example_db_def)
  have h4: "w_userId bobs_workout \<noteq> ''alice''"
    by (simp add: bobs_workout_def)
  have h5: "int4 (w_id bobs_workout)" and h6: "int4 7"
    by (simp_all add: bobs_workout_def int4_def)
  have id1: "w_id bobs_workout = 1" by (simp add: bobs_workout_def)
  have ok: "\<not> (rejects example_db SelectWorkouts \<or> \<not> int4 7)"
    "\<not> (rejects example_db UpdateWorkouts \<or> \<not> int4 7)"
    by (simp_all add: example_db_def int4_def)
  have h7: "2147483648 \<notin> w_id ` set (tbl_workouts example_db)"
    by (simp add: example_db_def bobs_workout_def alices_workout_def)
  have h8: "\<not> int4 2147483648" by (simp add: int4_def)
  then have far: "rejects example_db SelectWorkouts \<or> \<not> int4 2147483648"
    "rejects example_db UpdateWorkouts \<or> \<not> int4 2147483648"
    by simp_all
  note T = not_found_indistinguishable[OF h1 h2 h3 h4 h5,
        where now = 1740000009000 and data = rename,
      unfolded id1 if_not_P[OF ok(1)] if_not_P[OF ok(2)]]
  note F = not_found_indistinguishable[OF h1 h7 h3 h4 h5,
        where now = 1740000009000 and data = rename,
      unfolded id1 if_P[OF far(1)] if_P[OF far(2)]]
  show ?thesis using h1 h2 h3 h4 h5 h6 h7 h8 T F by blast
qed

text \<open>
  C5 (frame of update). After a successful \<open>updateWorkout\<close>, row by row: id, userId and
  createdAt are as before; a row matching id and owner has updatedAt set to the clock
  reading and keeps each of name, date and notes that the data omits; every other row is
  as before. The other tables and the identity sequence are as before. A returned row is
  the new version of a row that matched.
\<close>

theorem update_frame:
  assumes "updateWorkout now d i A data = Inr (r, d')"
  shows
    "list_all2 (\<lambda>x y.
        w_id y = w_id x \<and> w_userId y = w_userId x \<and> w_createdAt y = w_createdAt x \<and>
        (if w_id x = i \<and> w_userId x = A
         then w_updatedAt y = now \<and>
              (ud_name data = None \<longrightarrow> w_name y = w_name x) \<and>
              (ud_date data = None \<longrightarrow> w_date y = w_date x) \<and>
              (ud_notes data = None \<longrightarrow> w_notes y = w_notes x)
         else y = x)) (tbl_workouts d) (tbl_workouts d') \<and>
     tbl_exercises d' = tbl_exercises d \<and> tbl_sets d' = tbl_sets d \<and>
     workouts_seq d' = workouts_seq d \<and>
     (\<forall>x. r = Some x \<longrightarrow>
        w_id x = i \<and> w_userId x = A \<and> w_updatedAt x = now \<and> x \<in> set (tbl_workouts d') \<and>
        (\<exists>old \<in> set (tbl_workouts d).
           w_id old = i \<and> w_userId old = A \<and> w_createdAt x = w_createdAt old \<and>
           (ud_name data = None \<longrightarrow> w_name x = w_name old) \<and>
           (ud_date data = None \<longrightarrow> w_date x = w_date old) \<and>
           (ud_notes data = None \<longrightarrow> w_notes x = w_notes old)))"
proof -
  let ?P = "\<lambda>w. w_id w = i \<and> w_userId w = A"
  let ?f = "\<lambda>w. if ?P w then set_columns now data w else w"
  note res = update_result[OF assms]
  from res have tbl: "tbl_workouts d' = map ?f (tbl_workouts d)" by simp
  have rows: "list_all2 (\<lambda>x y.
        w_id y = w_id x \<and> w_userId y = w_userId x \<and> w_createdAt y = w_createdAt x \<and>
        (if w_id x = i \<and> w_userId x = A
         then w_updatedAt y = now \<and>
              (ud_name data = None \<longrightarrow> w_name y = w_name x) \<and>
              (ud_date data = None \<longrightarrow> w_date y = w_date x) \<and>
              (ud_notes data = None \<longrightarrow> w_notes y = w_notes x)
         else y = x)) (tbl_workouts d) (tbl_workouts d')"
    unfolding tbl by (rule list_all2_map_self) (simp add: set_columns_def)
  from res have rest: "tbl_exercises d' = tbl_exercises d" "tbl_sets d' = tbl_sets d"
      "workouts_seq d' = workouts_seq d"
    by simp_all
  have ret: "w_id x = i \<and> w_userId x = A \<and> w_updatedAt x = now \<and> x \<in> set (tbl_workouts d') \<and>
        (\<exists>old \<in> set (tbl_workouts d).
           w_id old = i \<and> w_userId old = A \<and> w_createdAt x = w_createdAt old \<and>
           (ud_name data = None \<longrightarrow> w_name x = w_name old) \<and>
           (ud_date data = None \<longrightarrow> w_date x = w_date old) \<and>
           (ud_notes data = None \<longrightarrow> w_notes x = w_notes old))" if "r = Some x" for x
  proof -
    from res that obtain old rest where
      f: "filter ?P (tbl_workouts d) = old # rest" and x: "x = set_columns now data old"
      by (auto split: list.splits)
    from filter_Cons_hd[OF f] have old: "?P old" "old \<in> set (tbl_workouts d)" by simp_all
    from old(2) have "?f old \<in> ?f ` set (tbl_workouts d)" by (rule imageI)
    then have "?f old \<in> set (tbl_workouts d')" unfolding tbl by (simp only: set_map)
    with old x have "x \<in> set (tbl_workouts d')" by simp
    with old x show ?thesis
      by (auto simp: set_columns_def intro!: bexI[of _ old])
  qed
  from rows rest ret show ?thesis by blast
qed

theorem update_frame_witness:
  "updateWorkout 1740000009000 example_db 1 ''bob'' rename =
     Inr (Some renamed, example_db\<lparr> tbl_workouts := [renamed, alices_workout] \<rparr>) \<and>
   w_id renamed = 1 \<and> w_userId renamed = ''bob'' \<and> w_updatedAt renamed = 1740000009000 \<and>
   renamed \<in> set [renamed, alices_workout] \<and>
   list_all2 (\<lambda>x y. w_id y = w_id x \<and> w_userId y = w_userId x \<and>
                w_createdAt y = w_createdAt x \<and> w_date y = w_date x \<and> w_notes y = w_notes x)
     [bobs_workout, alices_workout] [renamed, alices_workout]"
proof -
  have run: "updateWorkout 1740000009000 example_db 1 ''bob'' rename =
     Inr (Some renamed, example_db\<lparr> tbl_workouts := [renamed, alices_workout] \<rparr>)"
    by (simp add: updateWorkout_def int4_def example_db_def bobs_workout_def
          alices_workout_def rename_def renamed_def set_columns_def)
  have bob: "w_id bobs_workout = 1" "w_userId bobs_workout = ''bob''"
    by (simp_all add: bobs_workout_def)
  have absent: "ud_date rename = None" "ud_notes rename = None"
    by (simp_all add: rename_def)
  have "list_all2 (\<lambda>x y. w_id y = w_id x \<and> w_userId y = w_userId x \<and>
                w_createdAt y = w_createdAt x \<and> w_date y = w_date x \<and> w_notes y = w_notes x)
     [bobs_workout, alices_workout] [renamed, alices_workout]"
    using update_frame[OF run] by (simp add: example_db_def bob absent)
  moreover have "w_id renamed = 1 \<and> w_userId renamed = ''bob'' \<and>
      w_updatedAt renamed = 1740000009000 \<and> renamed \<in> set [renamed, alices_workout]"
    using update_frame[OF run] by simp
  ultimately show ?thesis using run by blast
qed

text \<open>
  C9 (round trip). Let the store accept the insert and the select and the next id of the
  sequence be unused. When that id is within the range of the column, \<open>createWorkout\<close>
  succeeds, and \<open>getUserWorkout\<close> on the resulting database, with the returned id and the
  creating owner, returns the created row: its name, date and notes (null when omitted)
  are those supplied, its userId is the owner, and its createdAt equals its updatedAt.
  When the sequence has left the range, the insert is rejected.
\<close>

theorem create_then_get:
  assumes "\<not> rejects d InsertWorkouts"
    and "\<not> rejects d SelectWorkouts"
    and "workouts_seq d \<notin> w_id ` set (tbl_workouts d)"
  shows "(int4 (workouts_seq d) \<longrightarrow>
          (\<exists>w d'. createWorkout now d data = Inr (w, d') \<and>
             getUserWorkout d' (w_id w) (cd_userId data) = Inr (Some w) \<and>
             w_name w = cd_name data \<and> w_date w = cd_date data \<and>
             w_notes w = cd_notes data \<and>
             w_userId w = cd_userId data \<and> w_createdAt w = w_updatedAt w)) \<and>
         (\<not> int4 (workouts_seq d) \<longrightarrow> createWorkout now d data = Inl PersistenceFailure)"
proof (intro conjI impI)
  assume range: "int4 (workouts_seq d)"
  define w where "w = \<lparr> w_id = workouts_seq d, w_userId = cd_userId data,
      w_name = cd_name data, w_date = cd_date data, w_notes = cd_notes data,
      w_createdAt = now, w_updatedAt = now \<rparr>"
  define d' where "d' = d\<lparr> tbl_workouts := tbl_workouts d @ [w],
      workouts_seq := workouts_seq d + 1 \<rparr>"
  have c: "createWorkout now d data = Inr (w, d')"
    unfolding w_def d'_def using assms(1) range assms(3) by (rule create_result)
  have old: "filter (\<lambda>x. w_id x = w_id w \<and> w_userId x = cd_userId data) (tbl_workouts d) = []"
    using assms(3) by (simp add: w_def filter_absent_id)
  have "filter (\<lambda>x. w_id x = w_id w \<and> w_userId x = cd_userId data) (tbl_workouts d') = [w]"
    by (simp add: d'_def old) (simp add: w_def)
  moreover have "\<not> rejects d' SelectWorkouts" using assms(2) by (simp add: d'_def)
  moreover have "int4 (w_id w)" using range by (simp add: w_def)
  ultimately have g: "getUserWorkout d' (w_id w) (cd_userId data) = Inr (Some w)"
    by (simp add: getUserWorkout_def)
  have "w_name w = cd_name data \<and> w_date w = cd_date data \<and> w_notes w = cd_notes data \<and>
           w_userId w = cd_userId data \<and> w_createdAt w = w_updatedAt w"
    by (simp add: w_def)
  with c g show "\<exists>w d'. createWorkout now d data = Inr (w, d') \<and>
             getUserWorkout d' (w_id w) (cd_userId data) = Inr (Some w) \<and>
             w_name w = cd_name data \<and> w_date w = cd_date data \<and>
             w_notes w = cd_notes data \<and>
             w_userId w = cd_userId data \<and> w_createdAt w = w_updatedAt w"
    by blast
next
  assume "\<not> int4 (workouts_seq d)"
  then show "createWorkout now d data = Inl PersistenceFailure"
    by (simp add: createWorkout_def)
qed

theorem create_then_get_witness:
  "\<not> rejects example_db InsertWorkouts \<and> \<not> rejects example_db SelectWorkouts \<and>
   workouts_seq example_db \<notin> w_id ` set (tbl_workouts example_db) \<and>
   int4 (workouts_seq example_db) \<and>
   createWorkout 1740000009000 example_db leg_day =
     Inr (leg_day_row, example_db\<lparr> tbl_workouts := [bobs_workout, alices_workout, leg_day_row],
                                    workouts_seq := 4 \<rparr>) \<and>
   getUserWorkout (example_db\<lparr> tbl_workouts := [bobs_workout, alices_workout, leg_day_row],
                                workouts_seq := 4 \<rparr>) 3 ''carol'' = Inr (Some leg_day_row)"
proof -
  have h1: "\<not> rejects example_db InsertWorkouts" and h2: "\<not> rejects example_db SelectWorkouts"
    by (simp_all add: example_db_def)
  have h3: "workouts_seq example_db \<notin> w_id ` set (tbl_workouts example_db)"
    by (simp add: example_db_def bobs_workout_def alices_workout_def)
  have h4: "int4 (workouts_seq example_db)"
    by (simp add: example_db_def int4_def)
  have run: "createWorkout 1740000009000 example_db leg_day =
     Inr (leg_day_row, example_db\<lparr> tbl_workouts := [bobs_workout, alices_workout, leg_day_row],
                                    workouts_seq := 4 \<rparr>)"
    by (simp add: createWorkout_def Let_def int4_def example_db_def bobs_workout_def
          alices_workout_def leg_day_def leg_day_row_def)
  have owner: "cd_userId leg_day = ''carol''" "w_id leg_day_row = 3"
    by (simp_all add: leg_day_def leg_day_row_def)
  from create_then_get[OF h1 h2 h3, of 1740000009000 leg_day] h4
  have "getUserWorkout (example_db\<lparr> tbl_workouts := [bobs_workout, alices_workout, leg_day_row],
                                workouts_seq := 4 \<rparr>) 3 ''carol'' = Inr (Some leg_day_row)"
    by (auto simp: run owner)
  with h1 h2 h3 h4 run show ?thesis by blast
qed

text \<open>
  C10 (update with no fields). As claimed, the empty update of a workout the caller owns
  is accepted and returns the row. That it strictly advances updatedAt fails: at a clock
  reading equal to the stored updatedAt, the call returns the stored row and leaves the
  database exactly as it was.
\<close>

theorem empty_update_counterexample:
  "updateWorkout 1740000000000 example_db 1 ''bob'' no_fields =
     Inr (Some bobs_workout, example_db) \<and>
   \<not> w_updatedAt bobs_workout < 1740000000000"
  by (simp add: updateWorkout_def Let_def int4_def example_db_def bobs_workout_def
        alices_workout_def no_fields_def set_columns_def)

text \<open>
  C10, amended. Let the ids be distinct, \<open>w\<close> a row, and the store accept the update.
  When \<open>w\<close>'s id is within the range of the column, as the id of a stored row is,
  \<open>updateWorkout\<close> with \<open>w\<close>'s id, \<open>w\<close>'s owner and no fields returns \<open>w\<close> with updatedAt
  set to the clock reading and name, date and notes as they were, and replaces \<open>w\<close> by
  that row in the table. updatedAt strictly advances exactly when the clock reading is
  later than the stored value, and the call changes nothing exactly when the two are
  equal. For an id outside the range the statement is rejected.
\<close>

theorem empty_update:
  assumes "distinct (map w_id (tbl_workouts d))"
    and "w \<in> set (tbl_workouts d)"
    and "\<not> rejects d UpdateWorkouts"
  shows "(int4 (w_id w) \<longrightarrow>
          (\<exists>d'. updateWorkout now d (w_id w) (w_userId w)
                 \<lparr> ud_name = None, ud_date = None, ud_notes = None \<rparr> =
               Inr (Some (w\<lparr> w_updatedAt := now \<rparr>), d') \<and>
          tbl_workouts d' =
            map (\<lambda>x. if x = w then w\<lparr> w_updatedAt := now \<rparr> else x) (tbl_workouts d) \<and>
          w_name (w\<lparr> w_updatedAt := now \<rparr>) = w_name w \<and>
          w_date (w\<lparr> w_updatedAt := now \<rparr>) = w_date w \<and>
          w_notes (w\<lparr> w_updatedAt := now \<rparr>) = w_notes w \<and>
          (w_updatedAt w < w_updatedAt (w\<lparr> w_updatedAt := now \<rparr>)) = (w_updatedAt w < now) \<and>
          (d' = d) = (now = w_updatedAt w))) \<and>
         (\<not> int4 (w_id w) \<longrightarrow>
          updateWorkout now d (w_id w) (w_userId w)
            \<lparr> ud_name = None, ud_date = None, ud_notes = None \<rparr> = Inl PersistenceFailure)"
proof (intro conjI impI)
  assume range: "int4 (w_id w)"
  let ?data = "\<lparr> ud_name = None, ud_date = None, ud_notes = None \<rparr>"
  let ?P = "\<lambda>x. w_id x = w_id w \<and> w_userId x = w_userId w"
  let ?T = "map (\<lambda>x. if x = w then w\<lparr> w_updatedAt := now \<rparr> else x) (tbl_workouts d)"
  define d' where "d' = d\<lparr> tbl_workouts := ?T \<rparr>"
  have touch: "set_columns now ?data x = x\<lparr> w_updatedAt := now \<rparr>" for x
    by (simp add: set_columns_def)
  have tbl: "map (\<lambda>x. if ?P x then set_columns now ?data x else x) (tbl_workouts d) = ?T"
    by (rule map_cong[OF refl]) (simp add: matches_own_row[OF assms(1,2)] touch)
  have own: "filter ?P (tbl_workouts d) = [w]"
    using assms(1,2) by (rule filter_own_row)
  have run: "updateWorkout now d (w_id w) (w_userId w) ?data =
               Inr (Some (w\<lparr> w_updatedAt := now \<rparr>), d')"
    using assms(3) range by (simp add: updateWorkout_def Let_def own tbl touch d'_def)
  have "(d' = d) = (now = w_updatedAt w)"
  proof
    assume "d' = d"
    then have "tbl_workouts d' = tbl_workouts d" by simp
    then have "?T = tbl_workouts d" by (simp add: d'_def)
    then have "\<forall>x \<in> set (tbl_workouts d). (if x = w then w\<lparr> w_updatedAt := now \<rparr> else x) = x"
      by (simp only: map_fix_iff)
    with assms(2) have "w\<lparr> w_updatedAt := now \<rparr> = w" by auto
    then have "w_updatedAt (w\<lparr> w_updatedAt := now \<rparr>) = w_updatedAt w" by (rule arg_cong)
    then show "now = w_updatedAt w" by simp
  next
    assume "now = w_updatedAt w"
    then have "\<forall>x \<in> set (tbl_workouts d). (if x = w then w\<lparr> w_updatedAt := now \<rparr> else x) = x"
      by simp
    then have "?T = tbl_workouts d" by (simp only: map_fix_iff)
    then show "d' = d" by (simp add: d'_def)
  qed
  moreover have "tbl_workouts d' = ?T" by (simp add: d'_def)
  ultimately show "\<exists>d'. updateWorkout now d (w_id w) (w_userId w)
                 \<lparr> ud_name = None, ud_date = None, ud_notes = None \<rparr> =
               Inr (Some (w\<lparr> w_updatedAt := now \<rparr>), d') \<and>
          tbl_workouts d' =
            map (\<lambda>x. if x = w then w\<lparr> w_updatedAt := now \<rparr> else x) (tbl_workouts d) \<and>
          w_name (w\<lparr> w_updatedAt := now \<rparr>) = w_name w \<and>
          w_date (w\<lparr> w_updatedAt := now \<rparr>) = w_date w \<and>
          w_notes (w\<lparr> w_updatedAt := now \<rparr>) = w_notes w \<and>
          (w_updatedAt w < w_updatedAt (w\<lparr> w_updatedAt := now \<rparr>)) = (w_updatedAt w < now) \<and>
          (d' = d) = (now = w_updatedAt w)"
    using run by simp
next
  assume "\<not> int4 (w_id w)"
  then show "updateWorkout now d (w_id w) (w_userId w)
            \<lparr> ud_name = None, ud_date = None, ud_notes = None \<rparr> = Inl PersistenceFailure"
    by (simp add: updateWorkout_def)
qed

theorem empty_update_witness:
  "distinct (map w_id (tbl_workouts example_db)) \<and>
   bobs_workout \<in> set (tbl_workouts example_db) \<and>
   \<not> rejects example_db UpdateWorkouts \<and>
   int4 (w_id bobs_workout) \<and>
   updateWorkout 1740000009000 example_db 1 ''bob'' no_fields =
     Inr (Some (bobs_workout\<lparr> w_updatedAt := 1740000009000 \<rparr>),
          example_db\<lparr> tbl_workouts :=
            [bobs_workout\<lparr> w_updatedAt := 1740000009000 \<rparr>, alices_workout] \<rparr>)"
proof -
  have h1: "distinct (map w_id (tbl_workouts example_db))"
    by (simp add: example_db_def bobs_workout_def alices_workout_def)
  have h2: "bobs_workout \<in> set (tbl_workouts example_db)"
    by (simp add: example_db_def)
  have h3: "\<not> rejects example_db UpdateWorkouts"
    by (simp add: example_db_def)
  have h4: "int4 (w_id bobs_workout)"
    by (simp add: bobs_workout_def int4_def)
  have bob: "w_id bobs_workout = 1" "w_userId bobs_workout = ''bob''"
    by (simp_all add: bobs_workout_def)
  have differ: "alices_workout \<noteq> bobs_workout"
    by (simp add: bobs_workout_def alices_workout_def)
  from empty_update[OF h1 h2 h3, of 1740000009000] h4 obtain d' where
    run: "updateWorkout 1740000009000 example_db 1 ''bob'' no_fields =
            Inr (Some (bobs_workout\<lparr> w_updatedAt := 1740000009000 \<rparr>), d')"
    and tbl: "tbl_workouts d' =
            [bobs_workout\<lparr> w_updatedAt := 1740000009000 \<rparr>, alices_workout]"
    by (auto simp: bob no_fields_def example_db_def differ)
  from update_result[OF run] have "d' = example_db\<lparr> tbl_workouts := tbl_workouts d' \<rparr>"
    by simp
  with run tbl h1 h2 h3 h4 show ?thesis by simp
qed





text \<open>
  C6 (aggregate, all or nothing). \<open>getUserWorkoutWithExercises\<close> returns null exactly when
  \<open>getUserWorkout\<close> does, whatever the store would say to the fetches of exercises and
  sets, and fails when the owner-checked fetch fails. When that fetch finds the workout,
  the operation fails if the fetch of the exercises or the fetch of the sets of any one
  of the workout's exercises is rejected, and otherwise returns the workout with all its
  exercises, each with all its sets. So an aggregate that is returned is never partial.
\<close>

theorem aggregate_all_or_nothing:
  "(getUserWorkoutWithExercises d i u = Inr None) = (getUserWorkout d i u = Inr None) \<and>
   (getUserWorkout d i u = Inl PersistenceFailure \<longrightarrow>
      getUserWorkoutWithExercises d i u = Inl PersistenceFailure) \<and>
   (\<forall>w. getUserWorkout d i u = Inr (Some w) \<longrightarrow>
      getUserWorkoutWithExercises d i u =
        (if rejects d SelectExercises \<or>
            (\<exists>e \<in> set (tbl_exercises d). e_workoutId e = i \<and> rejects d (SelectSets (e_id e)))
         then Inl PersistenceFailure
         else Inr (Some (workout.extend w
                (workout_with_exercises.fields
                   (map (with_all_sets d)
                      (sort_key e_order
                         (filter (\<lambda>e. e_workoutId e = i) (tbl_exercises d)))))))))  \<and>
   (\<forall>agg. getUserWorkoutWithExercises d i u = Inr (Some agg) \<longrightarrow>
      map e_id (exercises agg) =
        map e_id (sort_key e_order (filter (\<lambda>e. e_workoutId e = i) (tbl_exercises d))) \<and>
      (\<forall>e \<in> set (exercises agg).
         sets e = sort_key s_setNumber (filter (\<lambda>s. s_exerciseId s = e_id e) (tbl_sets d))))"
proof -
  have a: "(getUserWorkoutWithExercises d i u = Inr None) = (getUserWorkout d i u = Inr None)"
    by (auto simp: agg_cases split: sum.splits option.splits)
  have b: "getUserWorkoutWithExercises d i u = Inl PersistenceFailure"
    if "getUserWorkout d i u = Inl PersistenceFailure"
    using that by (simp add: agg_cases)
  have c: "getUserWorkoutWithExercises d i u =
        (if rejects d SelectExercises \<or>
            (\<exists>e \<in> set (tbl_exercises d). e_workoutId e = i \<and> rejects d (SelectSets (e_id e)))
         then Inl PersistenceFailure
         else Inr (Some (workout.extend w
                (workout_with_exercises.fields
                   (map (with_all_sets d)
                      (sort_key e_order
                         (filter (\<lambda>e. e_workoutId e = i) (tbl_exercises d))))))))"
    if "getUserWorkout d i u = Inr (Some w)" for w
    using that by (simp add: agg_cases)
  have e: "map e_id (exercises agg) =
        map e_id (sort_key e_order (filter (\<lambda>e. e_workoutId e = i) (tbl_exercises d))) \<and>
      (\<forall>e \<in> set (exercises agg).
         sets e = sort_key s_setNumber (filter (\<lambda>s. s_exerciseId s = e_id e) (tbl_sets d)))"
    if "getUserWorkoutWithExercises d i u = Inr (Some agg)" for agg
  proof -
    let ?es = "sort_key e_order (filter (\<lambda>e. e_workoutId e = i) (tbl_exercises d))"
    from that have "exercises agg = map (with_all_sets d) ?es"
      by (auto simp: agg_cases workout.defs workout_with_exercises.defs
               split: sum.splits option.splits if_splits)
    then show ?thesis by (auto simp: with_all_sets_sel)
  qed
  from a b c e show ?thesis by blast
qed

theorem aggregate_all_or_nothing_witness:
  "getUserWorkout example_db 1 ''alice'' = Inr None \<and>
   getUserWorkoutWithExercises example_db 1 ''alice'' = Inr None \<and>
   getUserWorkout example_db 9 ''bob'' = Inr None \<and>
   getUserWorkoutWithExercises example_db 9 ''bob'' = Inr None \<and>
   getUserWorkout workouts_only_db 1 ''alice'' = Inr None \<and>
   getUserWorkoutWithExercises workouts_only_db 1 ''alice'' = Inr None \<and>
   getUserWorkout flaky_db 1 ''bob'' = Inr (Some bobs_workout) \<and>
   getUserWorkoutWithExercises flaky_db 1 ''bob'' = Inl PersistenceFailure \<and>
   getUserWorkout example_db 1 ''bob'' = Inr (Some bobs_workout) \<and>
   getUserWorkoutWithExercises example_db 1 ''bob'' = Inr (Some bobs_aggregate)"
proof -
  have g1: "getUserWorkout example_db 1 ''alice'' = Inr None"
    and g2: "getUserWorkout example_db 9 ''bob'' = Inr None"
    and g3: "getUserWorkout workouts_only_db 1 ''alice'' = Inr None"
    and g4: "getUserWorkout flaky_db 1 ''bob'' = Inr (Some bobs_workout)"
    and g5: "getUserWorkout example_db 1 ''bob'' = Inr (Some bobs_workout)"
    by (simp_all add: get_cases int4_def example_db_def workouts_only_db_def flaky_db_def
          bobs_workout_def alices_workout_def)
  from g1 aggregate_all_or_nothing[of example_db 1 "''alice''"]
  have a1: "getUserWorkoutWithExercises example_db 1 ''alice'' = Inr None" by blast
  from g2 aggregate_all_or_nothing[of example_db 9 "''bob''"]
  have a2: "getUserWorkoutWithExercises example_db 9 ''bob'' = Inr None" by blast
  from g3 aggregate_all_or_nothing[of workouts_only_db 1 "''alice''"]
  have a3: "getUserWorkoutWithExercises workouts_only_db 1 ''alice'' = Inr None" by blast
  have down: "\<exists>e \<in> set (tbl_exercises flaky_db). e_workoutId e = 1 \<and> rejects flaky_db (SelectSets (e_id e))"
    by (simp add: flaky_db_def example_db_def mk_exercise_def)
  from aggregate_all_or_nothing[of flaky_db 1 "''bob''"] g4
  have "getUserWorkoutWithExercises flaky_db 1 ''bob'' =
        (if rejects flaky_db SelectExercises \<or>
            (\<exists>e \<in> set (tbl_exercises flaky_db). e_workoutId e = 1 \<and> rejects flaky_db (SelectSets (e_id e)))
         then Inl PersistenceFailure
         else Inr (Some (workout.extend bobs_workout
                (workout_with_exercises.fields
                   (map (with_all_sets flaky_db)
                      (sort_key e_order
                         (filter (\<lambda>e. e_workoutId e = 1) (tbl_exercises flaky_db))))))))"
    by blast
  with down have a4: "getUserWorkoutWithExercises flaky_db 1 ''bob'' = Inl PersistenceFailure"
    by simp
  from g1 g2 g3 g4 g5 a1 a2 a3 a4 bobs_aggregate_run show ?thesis by blast
qed

text \<open>
  C3 (result or exception). That every payload gets a structured result fails: for a
  payload with an empty name, \<open>createWorkoutAction\<close> leaves with the validation library's
  exception, raised by \<open>parse\<close> before the \<open>try\<close> block.
\<close>

theorem actions_return_or_throw_counterexample:
  "createWorkoutAction example_parse_date (Some ''carol'') 1740000009000 example_db
     empty_name_input =
   Inl (ZodError [Issue too_small ''name'' (Some ''Name is required'')])"
  by (simp add: createWorkoutAction_def createWorkoutSchema_parse_def empty_name_input_def
        z_string_def z_string_optional_def min_len_def max_len_def issues_of_def)

text \<open>
  C3, amended. When every field of the payload is valid, \<open>createWorkoutAction\<close> and
  \<open>updateWorkoutAction\<close> return a structured result and raise nothing, and the result
  follows from its cause. Without an identity (\<open>auth()\<close> yields null or the empty string)
  it is the error Unauthorized. With an identity, when the date does not parse or the store
  rejects the statement (the insert also when the sequence has left the range of the
  column or its next id is taken, the update also when the id is outside the range of the
  column), it is the error Failed to create workout, or Failed to update workout. When
  the store accepts the update and no row has the id with the caller as owner, it is the
  error Workout not found. In each of these cases the database is as it was. Otherwise it
  is success: with the row inserted, of the caller, with the name, date and notes of the
  payload; or with the row updated, its name and date those of the payload, its notes
  those of the payload when given and as they were when omitted, and its updatedAt the
  clock reading. When some field is invalid, the action raises the validation error
  instead of returning: its list of issues is not empty, and the fields the issues name
  are exactly the invalid fields.
\<close>

theorem actions_return_or_throw:
  "(valid_name (ci_name cin) \<and> valid_date (ci_date cin) \<and> valid_notes (ci_notes cin) \<and>
    ci_name cin = Some n \<and> ci_date cin = Some ds \<longrightarrow>
      (auth = None \<or> auth = Some [] \<longrightarrow>
         createWorkoutAction pd auth now d cin = Inr (Failure ''Unauthorized'', d)) \<and>
      (auth = Some u \<and> u \<noteq> [] \<and>
       (pd (ds @ ''T00:00:00'') = None \<or> rejects d InsertWorkouts \<or>
        \<not> int4 (workouts_seq d) \<or> workouts_seq d \<in> w_id ` set (tbl_workouts d)) \<longrightarrow>
         createWorkoutAction pd auth now d cin =
           Inr (Failure ''Failed to create workout'', d)) \<and>
      (auth = Some u \<and> u \<noteq> [] \<and> pd (ds @ ''T00:00:00'') = Some t \<and>
       \<not> rejects d InsertWorkouts \<and> int4 (workouts_seq d) \<and>
       workouts_seq d \<notin> w_id ` set (tbl_workouts d) \<longrightarrow>
         createWorkoutAction pd auth now d cin =
           Inr (Success \<lparr> w_id = workouts_seq d, w_userId = u, w_name = n, w_date = t,
                          w_notes = ci_notes cin, w_createdAt = now, w_updatedAt = now \<rparr>,
                d\<lparr> tbl_workouts := tbl_workouts d @
                       [\<lparr> w_id = workouts_seq d, w_userId = u, w_name = n, w_date = t,
                          w_notes = ci_notes cin, w_createdAt = now, w_updatedAt = now \<rparr>],
                   workouts_seq := workouts_seq d + 1 \<rparr>))) \<and>
   (\<not> (valid_name (ci_name cin) \<and> valid_date (ci_date cin) \<and> valid_notes (ci_notes cin)) \<longrightarrow>
      (\<exists>i is. createWorkoutAction pd auth now d cin = Inl (ZodError (i # is)) \<and>
         set (map issue_path (i # is)) =
           (if valid_name (ci_name cin) then {} else {''name''}) \<union>
           (if valid_date (ci_date cin) then {} else {''date''}) \<union>
           (if valid_notes (ci_notes cin) then {} else {''notes''}))) \<and>
   (valid_id (ui_id uin) \<and> valid_name (ui_name uin) \<and> valid_date (ui_date uin) \<and>
    valid_notes (ui_notes uin) \<and>
    ui_id uin = Some (of_int k) \<and> ui_name uin = Some m \<and> ui_date uin = Some es \<longrightarrow>
      (auth = None \<or> auth = Some [] \<longrightarrow>
         updateWorkoutAction pd auth now d uin = Inr (Failure ''Unauthorized'', d)) \<and>
      (auth = Some u \<and> u \<noteq> [] \<and>
       (pd (es @ ''T00:00:00'') = None \<or> rejects d UpdateWorkouts \<or> \<not> int4 k) \<longrightarrow>
         updateWorkoutAction pd auth now d uin =
           Inr (Failure ''Failed to update workout'', d)) \<and>
      (auth = Some u \<and> u \<noteq> [] \<and> pd (es @ ''T00:00:00'') = Some t \<and>
       \<not> rejects d UpdateWorkouts \<and> int4 k \<and>
       (\<forall>x \<in> set (tbl_workouts d). w_id x = k \<longrightarrow> w_userId x \<noteq> u) \<longrightarrow>
         updateWorkoutAction pd auth now d uin = Inr (Failure ''Workout not found'', d)) \<and>
      (auth = Some u \<and> u \<noteq> [] \<and> pd (es @ ''T00:00:00'') = Some t \<and>
       \<not> rejects d UpdateWorkouts \<and> int4 k \<and>
       distinct (map w_id (tbl_workouts d)) \<and> w \<in> set (tbl_workouts d) \<and>
       w_id w = k \<and> w_userId w = u \<longrightarrow>
         updateWorkoutAction pd auth now d uin =
           Inr (Success (w\<lparr> w_name := m, w_date := t,
                            w_notes := (case ui_notes uin of None \<Rightarrow> w_notes w
                                        | Some x \<Rightarrow> Some x),
                            w_updatedAt := now \<rparr>),
                d\<lparr> tbl_workouts :=
                     map (\<lambda>x. if x = w
                               then w\<lparr> w_name := m, w_date := t,
                                      w_notes := (case ui_notes uin of None \<Rightarrow> w_notes w
                                                  | Some x \<Rightarrow> Some x),
                                      w_updatedAt := now \<rparr>
                               else x) (tbl_workouts d) \<rparr>))) \<and>
   (\<not> (valid_id (ui_id uin) \<and> valid_name (ui_name uin) \<and> valid_date (ui_date uin) \<and>
        valid_notes (ui_notes uin)) \<longrightarrow>
      (\<exists>i is. updateWorkoutAction pd auth now d uin = Inl (ZodError (i # is)) \<and>
         set (map issue_path (i # is)) =
           (if valid_id (ui_id uin) then {} else {''id''}) \<union>
           (if valid_name (ui_name uin) then {} else {''name''}) \<union>
           (if valid_date (ui_date uin) then {} else {''date''}) \<union>
           (if valid_notes (ui_notes uin) then {} else {''notes''})))"
proof (intro conjI impI)
  assume "\<not> (valid_name (ci_name cin) \<and> valid_date (ci_date cin) \<and> valid_notes (ci_notes cin))"
  from create_parse_invalid[OF this] obtain i "is" where
    "createWorkoutSchema_parse cin = Inl (ZodError (i # is))"
    and "set (map issue_path (i # is)) =
           (if valid_name (ci_name cin) then {} else {''name''}) \<union>
           (if valid_date (ci_date cin) then {} else {''date''}) \<union>
           (if valid_notes (ci_notes cin) then {} else {''notes''})"
    by blast
  with create_action_throws[of cin "ZodError (i # is)" pd auth now d]
  show "\<exists>i is. createWorkoutAction pd auth now d cin = Inl (ZodError (i # is)) \<and>
         set (map issue_path (i # is)) =
           (if valid_name (ci_name cin) then {} else {''name''}) \<union>
           (if valid_date (ci_date cin) then {} else {''date''}) \<union>
           (if valid_notes (ci_notes cin) then {} else {''notes''})"
    by blast
next
  assume "\<not> (valid_id (ui_id uin) \<and> valid_name (ui_name uin) \<and> valid_date (ui_date uin) \<and>
        valid_notes (ui_notes uin))"
  from update_parse_invalid[OF this] obtain i "is" where
    "updateWorkoutSchema_parse uin = Inl (ZodError (i # is))"
    and "set (map issue_path (i # is)) =
           (if valid_id (ui_id uin) then {} else {''id''}) \<union>
           (if valid_name (ui_name uin) then {} else {''name''}) \<union>
           (if valid_date (ui_date uin) then {} else {''date''}) \<union>
           (if valid_notes (ui_notes uin) then {} else {''notes''})"
    by blast
  with update_action_throws[of uin "ZodError (i # is)" pd auth now d]
  show "\<exists>i is. updateWorkoutAction pd auth now d uin = Inl (ZodError (i # is)) \<and>
         set (map issue_path (i # is)) =
           (if valid_id (ui_id uin) then {} else {''id''}) \<union>
           (if valid_name (ui_name uin) then {} else {''name''}) \<union>
           (if valid_date (ui_date uin) then {} else {''date''}) \<union>
           (if valid_notes (ui_notes uin) then {} else {''notes''})"
    by blast
next
  assume h: "valid_name (ci_name cin) \<and> valid_date (ci_date cin) \<and> valid_notes (ci_notes cin) \<and>
    ci_name cin = Some n \<and> ci_date cin = Some ds"
  then have V: "valid_name (ci_name cin) \<and> valid_date (ci_date cin) \<and> valid_notes (ci_notes cin)"
    and n: "ci_name cin = Some n" and ds: "ci_date cin = Some ds"
    by blast+
  note C = create_action_causes[OF V n ds]
  {
    assume "auth = None \<or> auth = Some []"
    then show "createWorkoutAction pd auth now d cin = Inr (Failure ''Unauthorized'', d)"
      by (rule C(1))
  next
    assume "auth = Some u \<and> u \<noteq> [] \<and>
       (pd (ds @ ''T00:00:00'') = None \<or> rejects d InsertWorkouts \<or>
        \<not> int4 (workouts_seq d) \<or> workouts_seq d \<in> w_id ` set (tbl_workouts d))"
    then show "createWorkoutAction pd auth now d cin =
           Inr (Failure ''Failed to create workout'', d)"
      by (rule C(2))
  next
    assume "auth = Some u \<and> u \<noteq> [] \<and> pd (ds @ ''T00:00:00'') = Some t \<and>
       \<not> rejects d InsertWorkouts \<and> int4 (workouts_seq d) \<and>
       workouts_seq d \<notin> w_id ` set (tbl_workouts d)"
    then show "createWorkoutAction pd auth now d cin =
           Inr (Success \<lparr> w_id = workouts_seq d, w_userId = u, w_name = n, w_date = t,
                          w_notes = ci_notes cin, w_createdAt = now, w_updatedAt = now \<rparr>,
                d\<lparr> tbl_workouts := tbl_workouts d @
                       [\<lparr> w_id = workouts_seq d, w_userId = u, w_name = n, w_date = t,
                          w_notes = ci_notes cin, w_createdAt = now, w_updatedAt = now \<rparr>],
                   workouts_seq := workouts_seq d + 1 \<rparr>)"
      by (rule C(3))
  }
next
  assume h: "valid_id (ui_id uin) \<and> valid_name (ui_name uin) \<and> valid_date (ui_date uin) \<and>
    valid_notes (ui_notes uin) \<and>
    ui_id uin = Some (of_int k) \<and> ui_name uin = Some m \<and> ui_date uin = Some es"
  then have V: "valid_id (ui_id uin) \<and> valid_name (ui_name uin) \<and> valid_date (ui_date uin) \<and>
    valid_notes (ui_notes uin)"
    and k: "ui_id uin = Some (of_int k)" and m: "ui_name uin = Some m"
    and es: "ui_date uin = Some es"
    by blast+
  note U = update_action_causes[OF V k m es]
  {
    assume "auth = None \<or> auth = Some []"
    then show "updateWorkoutAction pd auth now d uin = Inr (Failure ''Unauthorized'', d)"
      by (rule U(1))
  next
    assume "auth = Some u \<and> u \<noteq> [] \<and>
       (pd (es @ ''T00:00:00'') = None \<or> rejects d UpdateWorkouts \<or> \<not> int4 k)"
    then show "updateWorkoutAction pd auth now d uin =
           Inr (Failure ''Failed to update workout'', d)"
      by (rule U(2))
  next
    assume "auth = Some u \<and> u \<noteq> [] \<and> pd (es @ ''T00:00:00'') = Some t \<and>
       \<not> rejects d UpdateWorkouts \<and> int4 k \<and>
       (\<forall>x \<in> set (tbl_workouts d). w_id x = k \<longrightarrow> w_userId x \<noteq> u)"
    then show "updateWorkoutAction pd auth now d uin = Inr (Failure ''Workout not found'', d)"
      by (rule U(3))
  next
    assume "auth = Some u \<and> u \<noteq> [] \<and> pd (es @ ''T00:00:00'') = Some t \<and>
       \<not> rejects d UpdateWorkouts \<and> int4 k \<and>
       distinct (map w_id (tbl_workouts d)) \<and> w \<in> set (tbl_workouts d) \<and>
       w_id w = k \<and> w_userId w = u"
    then show "updateWorkoutAction pd auth now d uin =
           Inr (Success (w\<lparr> w_name := m, w_date := t,
                            w_notes := (case ui_notes uin of None \<Rightarrow> w_notes w
                                        | Some x \<Rightarrow> Some x),
                            w_updatedAt := now \<rparr>),
                d\<lparr> tbl_workouts :=
                     map (\<lambda>x. if x = w
                               then w\<lparr> w_name := m, w_date := t,
                                      w_notes := (case ui_notes uin of None \<Rightarrow> w_notes w
                                                  | Some x \<Rightarrow> Some x),
                                      w_updatedAt := now \<rparr>
                               else x) (tbl_workouts d) \<rparr>)"
      by (rule U(4))
  }
qed

theorem actions_return_or_throw_witness:
  "(valid_name (ci_name leg_day_input) \<and> valid_date (ci_date leg_day_input) \<and>
    valid_notes (ci_notes leg_day_input) \<and>
    ci_name leg_day_input = Some ''Leg Day'' \<and> ci_date leg_day_input = Some ''2025-03-01'') \<and>
   createWorkoutAction example_parse_date None 1740000009000 example_db leg_day_input =
     Inr (Failure ''Unauthorized'', example_db) \<and>
   createWorkoutAction example_parse_date (Some []) 1740000009000 example_db leg_day_input =
     Inr (Failure ''Unauthorized'', example_db) \<and>
   rejects workouts_only_db InsertWorkouts \<and>
   createWorkoutAction example_parse_date (Some ''carol'') 1740000009000 workouts_only_db
     leg_day_input = Inr (Failure ''Failed to create workout'', workouts_only_db) \<and>
   (valid_name (ci_name undated_input) \<and> valid_date (ci_date undated_input) \<and>
    valid_notes (ci_notes undated_input) \<and>
    ci_name undated_input = Some ''Leg Day'' \<and> ci_date undated_input = Some ''someday'') \<and>
   example_parse_date (''someday'' @ ''T00:00:00'') = None \<and>
   createWorkoutAction example_parse_date (Some ''carol'') 1740000009000 example_db
     undated_input = Inr (Failure ''Failed to create workout'', example_db) \<and>
   example_parse_date (''2025-03-01'' @ ''T00:00:00'') = Some 1740787200000 \<and>
   \<not> rejects example_db InsertWorkouts \<and> int4 (workouts_seq example_db) \<and>
   workouts_seq example_db \<notin> w_id ` set (tbl_workouts example_db) \<and>
   createWorkoutAction example_parse_date (Some ''carol'') 1740000009000 example_db
     leg_day_input =
     Inr (Success leg_day_row,
          example_db\<lparr> tbl_workouts := [bobs_workout, alices_workout, leg_day_row],
                      workouts_seq := 4 \<rparr>) \<and>
   \<not> (valid_name (ci_name empty_name_input) \<and> valid_date (ci_date empty_name_input) \<and>
      valid_notes (ci_notes empty_name_input)) \<and>
   (\<exists>i is. createWorkoutAction example_parse_date (Some ''carol'') 1740000009000 example_db
             empty_name_input = Inl (ZodError (i # is)) \<and>
           set (map issue_path (i # is)) = {''name''}) \<and>
   (valid_id (ui_id edit_input) \<and> valid_name (ui_name edit_input) \<and>
    valid_date (ui_date edit_input) \<and> valid_notes (ui_notes edit_input) \<and>
    ui_id edit_input = Some (of_int 1) \<and> ui_name edit_input = Some ''Leg Day 2'' \<and>
    ui_date edit_input = Some ''2025-03-02'') \<and>
   updateWorkoutAction example_parse_date None 1740000009000 example_db edit_input =
     Inr (Failure ''Unauthorized'', example_db) \<and>
   rejects workouts_only_db UpdateWorkouts \<and>
   updateWorkoutAction example_parse_date (Some ''bob'') 1740000009000 workouts_only_db
     edit_input = Inr (Failure ''Failed to update workout'', workouts_only_db) \<and>
   (valid_id (ui_id far_input) \<and> valid_name (ui_name far_input) \<and>
    valid_date (ui_date far_input) \<and> valid_notes (ui_notes far_input) \<and>
    ui_id far_input = Some (of_int 2147483648) \<and> ui_name far_input = Some ''Leg Day 2'' \<and>
    ui_date far_input = Some ''2025-03-02'') \<and>
   \<not> int4 2147483648 \<and>
   updateWorkoutAction example_parse_date (Some ''bob'') 1740000009000 example_db far_input =
     Inr (Failure ''Failed to update workout'', example_db) \<and>
   example_parse_date (''2025-03-02'' @ ''T00:00:00'') = Some 1740873600000 \<and>
   \<not> rejects example_db UpdateWorkouts \<and> int4 1 \<and>
   list_all (\<lambda>x. w_id x \<noteq> 1 \<or> w_userId x \<noteq> ''alice'') (tbl_workouts example_db) \<and>
   updateWorkoutAction example_parse_date (Some ''alice'') 1740000009000 example_db
     edit_input = Inr (Failure ''Workout not found'', example_db) \<and>
   distinct (map w_id (tbl_workouts example_db)) \<and>
   bobs_workout \<in> set (tbl_workouts example_db) \<and>
   w_id bobs_workout = 1 \<and> w_userId bobs_workout = ''bob'' \<and>
   updateWorkoutAction example_parse_date (Some ''bob'') 1740000009000 example_db edit_input =
     Inr (Success edited, example_db\<lparr> tbl_workouts := [edited, alices_workout] \<rparr>) \<and>
   \<not> (valid_id (ui_id bare_id_input) \<and> valid_name (ui_name bare_id_input) \<and>
      valid_date (ui_date bare_id_input) \<and> valid_notes (ui_notes bare_id_input)) \<and>
   (\<exists>i is. updateWorkoutAction example_parse_date (Some ''bob'') 1740000009000 example_db
             bare_id_input = Inl (ZodError (i # is)) \<and>
           set (map issue_path (i # is)) = {''name'', ''date''})"
proof -
  have cv: "valid_name (ci_name leg_day_input) \<and> valid_date (ci_date leg_day_input) \<and>
    valid_notes (ci_notes leg_day_input) \<and>
    ci_name leg_day_input = Some ''Leg Day'' \<and> ci_date leg_day_input = Some ''2025-03-01''"
    using leg_day_input_valid by (simp add: leg_day_input_def)
  have cu: "valid_name (ci_name undated_input) \<and> valid_date (ci_date undated_input) \<and>
    valid_notes (ci_notes undated_input) \<and>
    ci_name undated_input = Some ''Leg Day'' \<and> ci_date undated_input = Some ''someday''"
    using undated_input_valid by (simp add: undated_input_def)
  have uv: "valid_id (ui_id edit_input) \<and> valid_name (ui_name edit_input) \<and>
    valid_date (ui_date edit_input) \<and> valid_notes (ui_notes edit_input) \<and>
    ui_id edit_input = Some (of_int 1) \<and> ui_name edit_input = Some ''Leg Day 2'' \<and>
    ui_date edit_input = Some ''2025-03-02''"
    using edit_input_valid by (simp add: edit_input_def)
  have uf: "valid_id (ui_id far_input) \<and> valid_name (ui_name far_input) \<and>
    valid_date (ui_date far_input) \<and> valid_notes (ui_notes far_input) \<and>
    ui_id far_input = Some (of_int 2147483648) \<and> ui_name far_input = Some ''Leg Day 2'' \<and>
    ui_date far_input = Some ''2025-03-02''"
    using far_input_valid by (simp add: far_input_def)
  have ci: "\<not> (valid_name (ci_name empty_name_input) \<and> valid_date (ci_date empty_name_input) \<and>
      valid_notes (ci_notes empty_name_input))"
    using empty_name_input_invalid by simp
  have ui: "\<not> (valid_id (ui_id bare_id_input) \<and> valid_name (ui_name bare_id_input) \<and>
      valid_date (ui_date bare_id_input) \<and> valid_notes (ui_notes bare_id_input))"
    using bare_id_input_invalid by simp
  have pd: "example_parse_date (''someday'' @ ''T00:00:00'') = None"
    "example_parse_date (''2025-03-01'' @ ''T00:00:00'') = Some 1740787200000"
    "example_parse_date (''2025-03-02'' @ ''T00:00:00'') = Some 1740873600000"
    by (simp_all add: example_parse_date_def)
  have st: "rejects workouts_only_db InsertWorkouts" "rejects workouts_only_db UpdateWorkouts"
    "\<not> rejects example_db InsertWorkouts" "\<not> rejects example_db UpdateWorkouts"
    "int4 (workouts_seq example_db)" "int4 1" "\<not> int4 2147483648"
    "workouts_seq example_db \<notin> w_id ` set (tbl_workouts example_db)"
    "distinct (map w_id (tbl_workouts example_db))"
    "bobs_workout \<in> set (tbl_workouts example_db)"
    "w_id bobs_workout = 1" "w_userId bobs_workout = ''bob''"
    by (simp_all add: workouts_only_db_def example_db_def int4_def bobs_workout_def
          alices_workout_def)
  have nf: "list_all (\<lambda>x. w_id x \<noteq> 1 \<or> w_userId x \<noteq> ''alice'') (tbl_workouts example_db)"
    by (simp add: example_db_def bobs_workout_def alices_workout_def)
  note cinv = actions_return_or_throw[where cin = empty_name_input
      and pd = example_parse_date and auth = "Some ''carol''" and now = 1740000009000
      and d = example_db,
      THEN conjunct2, THEN conjunct1, THEN mp, OF ci]
  note uinv = actions_return_or_throw[where uin = bare_id_input
      and pd = example_parse_date and auth = "Some ''bob''" and now = 1740000009000
      and d = example_db,
      THEN conjunct2, THEN conjunct2, THEN conjunct2, THEN mp, OF ui]
  have w1: "createWorkoutAction example_parse_date None 1740000009000 example_db
      leg_day_input = Inr (Failure ''Unauthorized'', example_db)"
    by (rule actions_return_or_throw[where cin = leg_day_input and n = "''Leg Day''"
          and ds = "''2025-03-01''" and pd = example_parse_date and now = 1740000009000,
          THEN conjunct1, THEN mp, OF cv,
          THEN conjunct1, THEN mp]) simp
  have w2: "createWorkoutAction example_parse_date (Some []) 1740000009000 example_db
      leg_day_input = Inr (Failure ''Unauthorized'', example_db)"
    by (rule actions_return_or_throw[where cin = leg_day_input and n = "''Leg Day''"
          and ds = "''2025-03-01''" and pd = example_parse_date and now = 1740000009000,
          THEN conjunct1, THEN mp, OF cv,
          THEN conjunct1, THEN mp]) simp
  have w3: "createWorkoutAction example_parse_date (Some ''carol'') 1740000009000
      workouts_only_db leg_day_input =
      Inr (Failure ''Failed to create workout'', workouts_only_db)"
    by (rule actions_return_or_throw[where cin = leg_day_input and n = "''Leg Day''"
          and ds = "''2025-03-01''" and pd = example_parse_date and now = 1740000009000
          and u = "''carol''",
          THEN conjunct1, THEN mp, OF cv,
          THEN conjunct2, THEN conjunct1, THEN mp])
       (simp add: st)
  have w4: "createWorkoutAction example_parse_date (Some ''carol'') 1740000009000 example_db
      undated_input = Inr (Failure ''Failed to create workout'', example_db)"
    by (rule actions_return_or_throw[where cin = undated_input and n = "''Leg Day''"
          and ds = "''someday''" and pd = example_parse_date and now = 1740000009000
          and u = "''carol''",
          THEN conjunct1, THEN mp, OF cu,
          THEN conjunct2, THEN conjunct1, THEN mp])
       (simp add: example_parse_date_def)
  have "createWorkoutAction example_parse_date (Some ''carol'') 1740000009000 example_db
      leg_day_input =
      Inr (Success \<lparr> w_id = workouts_seq example_db, w_userId = ''carol'',
                     w_name = ''Leg Day'', w_date = 1740787200000,
                     w_notes = ci_notes leg_day_input, w_createdAt = 1740000009000,
                     w_updatedAt = 1740000009000 \<rparr>,
           example_db\<lparr> tbl_workouts := tbl_workouts example_db @
                  [\<lparr> w_id = workouts_seq example_db, w_userId = ''carol'',
                     w_name = ''Leg Day'', w_date = 1740787200000,
                     w_notes = ci_notes leg_day_input, w_createdAt = 1740000009000,
                     w_updatedAt = 1740000009000 \<rparr>],
              workouts_seq := workouts_seq example_db + 1 \<rparr>)"
    by (rule actions_return_or_throw[where cin = leg_day_input and n = "''Leg Day''"
          and ds = "''2025-03-01''" and pd = example_parse_date and now = 1740000009000
          and u = "''carol''" and t = 1740787200000,
          THEN conjunct1, THEN mp, OF cv,
          THEN conjunct2, THEN conjunct2, THEN mp])
       (simp add: example_parse_date_def st)
  then have w5: "createWorkoutAction example_parse_date (Some ''carol'') 1740000009000
      example_db leg_day_input =
      Inr (Success leg_day_row,
          example_db\<lparr> tbl_workouts := [bobs_workout, alices_workout, leg_day_row],
                      workouts_seq := 4 \<rparr>)"
    by (simp add: example_db_def leg_day_row_def leg_day_input_def)
  from cinv empty_name_input_invalid
  have w6: "\<exists>i is. createWorkoutAction example_parse_date (Some ''carol'') 1740000009000
             example_db empty_name_input = Inl (ZodError (i # is)) \<and>
           set (map issue_path (i # is)) = {''name''}"
    by simp
  have u1: "updateWorkoutAction example_parse_date None 1740000009000 example_db
      edit_input = Inr (Failure ''Unauthorized'', example_db)"
    by (rule actions_return_or_throw[where uin = edit_input and k = 1 and m = "''Leg Day 2''"
          and es = "''2025-03-02''" and pd = example_parse_date and now = 1740000009000,
          THEN conjunct2, THEN conjunct2, THEN conjunct1, THEN mp, OF uv,
          THEN conjunct1, THEN mp]) simp
  have u2: "updateWorkoutAction example_parse_date (Some ''bob'') 1740000009000
      workouts_only_db edit_input =
      Inr (Failure ''Failed to update workout'', workouts_only_db)"
    by (rule actions_return_or_throw[where uin = edit_input and k = 1 and m = "''Leg Day 2''"
          and es = "''2025-03-02''" and pd = example_parse_date and now = 1740000009000
          and u = "''bob''",
          THEN conjunct2, THEN conjunct2, THEN conjunct1, THEN mp, OF uv,
          THEN conjunct2, THEN conjunct1, THEN mp])
       (simp add: st)
  have u3: "updateWorkoutAction example_parse_date (Some ''bob'') 1740000009000 example_db
      far_input = Inr (Failure ''Failed to update workout'', example_db)"
    by (rule actions_return_or_throw[where uin = far_input and k = 2147483648 and m = "''Leg Day 2''"
          and es = "''2025-03-02''" and pd = example_parse_date and now = 1740000009000
          and u = "''bob''",
          THEN conjunct2, THEN conjunct2, THEN conjunct1, THEN mp, OF uf,
          THEN conjunct2, THEN conjunct1, THEN mp])
       (simp add: st)
  have u4: "updateWorkoutAction example_parse_date (Some ''alice'') 1740000009000 example_db
      edit_input = Inr (Failure ''Workout not found'', example_db)"
    by (rule actions_return_or_throw[where uin = edit_input and k = 1 and m = "''Leg Day 2''"
          and es = "''2025-03-02''" and pd = example_parse_date and now = 1740000009000
          and u = "''alice''" and t = 1740873600000,
          THEN conjunct2, THEN conjunct2, THEN conjunct1, THEN mp, OF uv,
          THEN conjunct2, THEN conjunct2, THEN conjunct1, THEN mp])
       (use nf in \<open>simp add: example_parse_date_def st list_all_iff\<close>)
  have "updateWorkoutAction example_parse_date (Some ''bob'') 1740000009000 example_db
      edit_input =
      Inr (Success (bobs_workout\<lparr> w_name := ''Leg Day 2'', w_date := 1740873600000,
                      w_notes := (case ui_notes edit_input of None \<Rightarrow> w_notes bobs_workout
                                  | Some x \<Rightarrow> Some x),
                      w_updatedAt := 1740000009000 \<rparr>),
           example_db\<lparr> tbl_workouts :=
               map (\<lambda>x. if x = bobs_workout
                         then bobs_workout\<lparr> w_name := ''Leg Day 2'', w_date := 1740873600000,
                                w_notes := (case ui_notes edit_input of
                                              None \<Rightarrow> w_notes bobs_workout
                                            | Some x \<Rightarrow> Some x),
                                w_updatedAt := 1740000009000 \<rparr>
                         else x) (tbl_workouts example_db) \<rparr>)"
    by (rule actions_return_or_throw[where uin = edit_input and k = 1 and m = "''Leg Day 2''"
          and es = "''2025-03-02''" and pd = example_parse_date and now = 1740000009000
          and u = "''bob''" and t = 1740873600000 and w = bobs_workout,
          THEN conjunct2, THEN conjunct2, THEN conjunct1, THEN mp, OF uv,
          THEN conjunct2, THEN conjunct2, THEN conjunct2, THEN mp])
       (simp add: example_parse_date_def st)
  then have u5: "updateWorkoutAction example_parse_date (Some ''bob'') 1740000009000
      example_db edit_input =
      Inr (Success edited, example_db\<lparr> tbl_workouts := [edited, alices_workout] \<rparr>)"
    by (simp add: example_db_def edited_def edit_input_def bobs_workout_def
          alices_workout_def)
  from uinv bare_id_input_invalid
  have u6: "\<exists>i is. updateWorkoutAction example_parse_date (Some ''bob'') 1740000009000
             example_db bare_id_input = Inl (ZodError (i # is)) \<and>
           set (map issue_path (i # is)) = {''name'', ''date''}"
    by (simp add: insert_commute)
  from cv w1 w2 st(1) w3 cu pd(1) w4 pd(2) st(3) st(5) st(8) w5 ci w6
    uv u1 st(2) u2 uf st(7) u3 pd(3) st(4) st(6) nf u4 st(9) st(10) st(11) st(12)
    u5 ui u6
  show ?thesis by blast
qed

text \<open>
  C4 (update schema). That the update schema accepts a payload with name, date and notes
  all omitted fails: with only the id given, \<open>parse\<close> reports name and date as missing.
\<close>

theorem update_schema_requires_name_and_date_counterexample:
  "updateWorkoutSchema_parse bare_id_input =
   Inl (ZodError [Issue invalid_type ''name'' None, Issue invalid_type ''date'' None])"
  by (simp add: updateWorkoutSchema_parse_def bare_id_input_def z_number_int_positive_def
        z_string_def z_string_optional_def min_len_def max_len_def issues_of_def)

text \<open>
  C4, amended. The update schema accepts a payload exactly when the id is a positive
  integer, the name has 1 to 255 characters, the date is a non-empty string, and the notes
  are absent or have at most 1000 characters: id, name and date are required, only notes
  is optional. The validated data are the fields given. When notes is omitted,
  \<open>updateWorkoutAction\<close> leaves the stored notes of every row as they were.
\<close>

theorem update_schema_requires_name_and_date:
  "(\<exists>v. updateWorkoutSchema_parse input = Inr v) =
     (valid_id (ui_id input) \<and> valid_name (ui_name input) \<and> valid_date (ui_date input) \<and>
      valid_notes (ui_notes input)) \<and>
   (\<forall>v. updateWorkoutSchema_parse input = Inr v \<longrightarrow>
      ui_id input = Some (of_int (uv_id v)) \<and> ui_name input = Some (uv_name v) \<and>
      ui_date input = Some (uv_date v) \<and> uv_notes v = ui_notes input) \<and>
   (ui_notes input = None \<longrightarrow>
      (\<forall>r d'. updateWorkoutAction pd auth now d input = Inr (r, d') \<longrightarrow>
         list_all2 (\<lambda>x y. w_notes y = w_notes x) (tbl_workouts d) (tbl_workouts d')))"
proof (intro conjI allI impI)
  show "(\<exists>v. updateWorkoutSchema_parse input = Inr v) =
     (valid_id (ui_id input) \<and> valid_name (ui_name input) \<and> valid_date (ui_date input) \<and>
      valid_notes (ui_notes input))"
    using update_parse_Inr[of input] update_parse_valid[of input] by blast
next
  fix v assume "updateWorkoutSchema_parse input = Inr v"
  from update_parse_Inr[OF this]
  show "ui_id input = Some (of_int (uv_id v))" "ui_name input = Some (uv_name v)"
    "ui_date input = Some (uv_date v)" "uv_notes v = ui_notes input"
    by simp_all
next
  fix r d'
  assume none: "ui_notes input = None"
    and run: "updateWorkoutAction pd auth now d input = Inr (r, d')"
  from update_action_db[OF run] show
    "list_all2 (\<lambda>x y. w_notes y = w_notes x) (tbl_workouts d) (tbl_workouts d')"
  proof
    assume "d' = d"
    then show ?thesis by (simp add: list_all2_same_notes)
  next
    assume "\<exists>v u t r0. updateWorkoutSchema_parse input = Inr v \<and>
            updateWorkout now d (uv_id v) u
              \<lparr> ud_name = Some (uv_name v), ud_date = Some t, ud_notes = uv_notes v \<rparr> =
            Inr (r0, d')"
    then obtain v u t r0 where p: "updateWorkoutSchema_parse input = Inr v"
      and u: "updateWorkout now d (uv_id v) u
              \<lparr> ud_name = Some (uv_name v), ud_date = Some t, ud_notes = uv_notes v \<rparr> =
            Inr (r0, d')"
      by blast
    from update_parse_Inr[OF p] none have "uv_notes v = None" by simp
    then show ?thesis by (intro update_keeps_omitted_notes[OF u]) simp
  qed
qed

theorem update_schema_requires_name_and_date_witness:
  "(valid_id (ui_id edit_input) \<and> valid_name (ui_name edit_input) \<and>
    valid_date (ui_date edit_input) \<and> valid_notes (ui_notes edit_input)) \<and>
   (\<exists>v. updateWorkoutSchema_parse edit_input = Inr v) \<and>
   ui_notes edit_input = None \<and>
   updateWorkoutAction example_parse_date (Some ''bob'') 1740000009000 example_db edit_input =
     Inr (Success edited, example_db\<lparr> tbl_workouts := [edited, alices_workout] \<rparr>) \<and>
   list_all2 (\<lambda>x y. w_notes y = w_notes x) [bobs_workout, alices_workout]
     [edited, alices_workout] \<and>
   w_notes edited = Some ''heavy''"
proof -
  note T = update_schema_requires_name_and_date[of edit_input example_parse_date
      "Some ''bob''" 1740000009000 example_db]
  from T edit_input_valid have p: "\<exists>v. updateWorkoutSchema_parse edit_input = Inr v"
    by blast
  have none: "ui_notes edit_input = None" by (simp add: edit_input_def)
  from T none edit_action_run
  have "list_all2 (\<lambda>x y. w_notes y = w_notes x) (tbl_workouts example_db)
     (tbl_workouts (example_db\<lparr> tbl_workouts := [edited, alices_workout] \<rparr>))"
    by blast
  then have l: "list_all2 (\<lambda>x y. w_notes y = w_notes x) [bobs_workout, alices_workout]
     [edited, alices_workout]"
    by (simp add: example_db_def)
  then have "w_notes edited = w_notes bobs_workout" by simp
  then have n: "w_notes edited = Some ''heavy''" by (simp add: bobs_workout_def)
  from edit_input_valid p none edit_action_run l n show ?thesis by blast
qed

end
